theory Spec2Isabelle
  imports Complex_Main
begin

section \<open>Strings\<close>

text \<open>
  A JavaScript string is modelled as a \<open>string\<close>: a list of code units, each below 256.
  \<open>length\<close> is the JavaScript \<open>.length\<close>. Code units above 255 are outside the model.
\<close>

text \<open>\<open>s.split(c)\<close> for a one-character separator: always at least one part.\<close>

fun split_on :: "char \<Rightarrow> string \<Rightarrow> string list" where
  "split_on c [] = [[]]"
| "split_on c (x # xs) =
     (if x = c then [] # split_on c xs
      else (case split_on c xs of [] \<Rightarrow> [[x]] | p # ps \<Rightarrow> (x # p) # ps))"

text \<open>\<open>parts.join(sep)\<close>.\<close>

fun join_with :: "string \<Rightarrow> string list \<Rightarrow> string" where
  "join_with sep [] = []"
| "join_with sep [p] = p"
| "join_with sep (p # q # ps) = p @ sep @ join_with sep (q # ps)"

text \<open>\<open>parts.slice(-n)\<close>: the last \<open>n\<close> elements, all of them when there are fewer.\<close>

definition slice_last :: "nat \<Rightarrow> 'a list \<Rightarrow> 'a list" where
  "slice_last n xs = drop (length xs - n) xs"

definition is_digit :: "char \<Rightarrow> bool" where
  "is_digit c = (c \<in> set ''0123456789'')"

section \<open>Root domain\<close>

text \<open>
  The regular expression \<^verbatim>\<open>/^(localhost|(\d{1,3}\.){3}\d{1,3})$/\<close>: the literal
  \<open>localhost\<close>, or four groups of one to three decimal digits separated by dots.
  A digit is never a dot, so the second alternative matches exactly when splitting on the
  dot gives four parts, each of one to three digits.
\<close>

definition digit_group :: "string \<Rightarrow> bool" where
  "digit_group p = (1 \<le> length p \<and> length p \<le> 3 \<and> list_all is_digit p)"

definition local_or_ip :: "string \<Rightarrow> bool" where
  "local_or_ip h =
     (h = ''localhost'' \<or>
      (let ps = split_on (CHR ''.'') h in length ps = 4 \<and> list_all digit_group ps))"

definition slds :: "string list" where
  "slds = [''co'', ''ne'', ''or'', ''go'', ''ac'', ''ad'', ''ed'', ''gr'', ''com'', ''net'',
           ''org'', ''gov'', ''edu'', ''uk'', ''au'', ''ca'', ''de'', ''fr'', ''kr'']"

text \<open>\<open>getRootDomain\<close>, with \<open>window.location.hostname\<close> as its argument.\<close>

definition getRootDomain :: "string \<Rightarrow> string" where
  "getRootDomain hostname =
     (if local_or_ip hostname then hostname
      else
        let parts = split_on (CHR ''.'') hostname in
        if length parts \<le> 2 then hostname
        else if parts ! (length parts - 2) \<in> set slds \<and> length parts > 2
          then join_with ''.'' (slice_last 3 parts)
        else join_with ''.'' (slice_last 2 parts))"

text \<open>
  The rule as the specification words it: unchanged for \<open>localhost\<close> and dotted quads;
  otherwise the last three labels when the second-to-last label is a known second-level
  label, and the last two labels when it is not (or when there is no such label).
\<close>

definition second_to_last_known :: "string list \<Rightarrow> bool" where
  "second_to_last_known parts =
     (length parts \<ge> 2 \<and> parts ! (length parts - 2) \<in> set slds)"

definition resolveRootDomain_spec :: "string \<Rightarrow> string" where
  "resolveRootDomain_spec hostname =
     (if local_or_ip hostname then hostname
      else
        let parts = split_on (CHR ''.'') hostname in
        if second_to_last_known parts then join_with ''.'' (slice_last 3 parts)
        else join_with ''.'' (slice_last 2 parts))"

section \<open>More string operations\<close>

text \<open>\<open>s.trim()\<close>: white space of the code units below 256 (tab, LF, VT, FF, CR, space, NBSP).\<close>

definition is_space :: "char \<Rightarrow> bool" where
  "is_space c = (of_char c \<in> {9, 10, 11, 12, 13, 32, 160 :: nat})"

definition trim :: "string \<Rightarrow> string" where
  "trim s = rev (dropWhile is_space (rev (dropWhile is_space s)))"

text \<open>\<open>s.includes(pat)\<close>: \<open>pat\<close> occurs somewhere in \<open>s\<close>.\<close>

fun js_includes :: "string \<Rightarrow> string \<Rightarrow> bool" where
  "js_includes [] pat = (pat = [])"
| "js_includes (x # xs) pat = (take (length pat) (x # xs) = pat \<or> js_includes xs pat)"

text \<open>\<open>s.indexOf(c)\<close> for one character; \<open>None\<close> is the result \<open>-1\<close>.\<close>

fun indexOf :: "string \<Rightarrow> char \<Rightarrow> nat option" where
  "indexOf [] c = None"
| "indexOf (x # xs) c = (if x = c then Some 0 else map_option Suc (indexOf xs c))"

text \<open>\<open>s.toUpperCase()\<close> on the letters \<open>a\<close> to \<open>z\<close>. No other code unit below 256 is mapped
  to one of the letters of \<open>JPY\<close>, \<open>AUD\<close> or \<open>CHF\<close>, the only results the program looks at.\<close>

definition upper_char :: "char \<Rightarrow> char" where
  "upper_char c =
     (if 97 \<le> (of_char c :: nat) \<and> (of_char c :: nat) \<le> 122
      then char_of (of_char c - 32 :: nat) else c)"

definition toUpperCase :: "string \<Rightarrow> string" where
  "toUpperCase s = map upper_char s"

text \<open>The decimal digits of a natural number: \<open>String(n)\<close> for an index or a time stamp.\<close>

function decimal :: "nat \<Rightarrow> string" where
  "decimal n =
     (if n < 10 then [char_of (48 + n)]
      else decimal (n div 10) @ [char_of (48 + n mod 10)])"
  by pat_completeness auto
termination
  by (relation "measure (\<lambda>n. n)") auto

declare decimal.simps [simp del]

section \<open>JavaScript values\<close>

text \<open>
  A number is \<open>NaN\<close>, an infinity or a finite value: \<open>Fin x\<close> is the number of value \<open>x\<close>. A
  sum or a product of finite numbers is the exact result rounded to the nearest double, to
  the even one of two nearest, and an infinity when the rounded result is beyond the
  largest double, as IEEE 754 binary64 arithmetic gives it. The sign of zero is not
  modelled.
\<close>

datatype jsnum = NaN | PosInf | NegInf | Fin real

text \<open>The number of binary digits of \<open>n\<close>.\<close>

function bit_length :: "nat \<Rightarrow> nat" where
  "bit_length n = (if n = 0 then 0 else Suc (bit_length (n div 2)))"
  by pat_completeness auto
termination
  by (relation "measure (\<lambda>n. n)") auto

declare bit_length.simps [simp del]

definition pow2 :: "int \<Rightarrow> real" where
  "pow2 k = (if 0 \<le> k then 2 ^ nat k else 1 / 2 ^ nat (- k))"

text \<open>The exponent \<open>e\<close> with \<open>2 ^ e \<le> |x| < 2 ^ (e + 1)\<close>, for \<open>x\<close> other than zero.\<close>

definition binary_exponent :: "real \<Rightarrow> int" where
  "binary_exponent x =
     (if 1 \<le> \<bar>x\<bar> then int (bit_length (nat \<lfloor>\<bar>x\<bar>\<rfloor>)) - 1
      else - int (bit_length (nat (\<lceil>1 / \<bar>x\<bar>\<rceil> - 1))))"

text \<open>The nearest integer, the even one of two nearest.\<close>

definition round_half_even :: "real \<Rightarrow> int" where
  "round_half_even y =
     (let f = \<lfloor>y\<rfloor>; d = y - of_int f
      in if d < 1 / 2 then f else if 1 / 2 < d then f + 1 else if even f then f else f + 1)"

text \<open>
  The double nearest to \<open>x\<close>: 53 binary digits from the leading one, and steps of
  \<open>2 ^ -1074\<close> below \<open>2 ^ -1022\<close>; an infinity from \<open>2 ^ 1024\<close> on.
\<close>

definition round_double :: "real \<Rightarrow> jsnum" where
  "round_double x =
     (if x = 0 then Fin 0
      else
        let q = max (binary_exponent x - 52) (- 1074);
            r = of_int (round_half_even (x / pow2 q)) * pow2 q
        in if 2 ^ 1024 \<le> \<bar>r\<bar> then (if 0 < x then PosInf else NegInf) else Fin r)"

fun js_add :: "jsnum \<Rightarrow> jsnum \<Rightarrow> jsnum" where
  "js_add NaN y = NaN"
| "js_add x NaN = NaN"
| "js_add PosInf NegInf = NaN"
| "js_add NegInf PosInf = NaN"
| "js_add PosInf y = PosInf"
| "js_add NegInf y = NegInf"
| "js_add (Fin a) PosInf = PosInf"
| "js_add (Fin a) NegInf = NegInf"
| "js_add (Fin a) (Fin b) = round_double (a + b)"

definition signed_inf :: "bool \<Rightarrow> jsnum" where
  "signed_inf positive = (if positive then PosInf else NegInf)"

fun js_mul :: "jsnum \<Rightarrow> jsnum \<Rightarrow> jsnum" where
  "js_mul NaN y = NaN"
| "js_mul x NaN = NaN"
| "js_mul PosInf PosInf = PosInf"
| "js_mul PosInf NegInf = NegInf"
| "js_mul NegInf PosInf = NegInf"
| "js_mul NegInf NegInf = PosInf"
| "js_mul PosInf (Fin b) = (if b = 0 then NaN else signed_inf (0 < b))"
| "js_mul NegInf (Fin b) = (if b = 0 then NaN else signed_inf (b < 0))"
| "js_mul (Fin a) PosInf = (if a = 0 then NaN else signed_inf (0 < a))"
| "js_mul (Fin a) NegInf = (if a = 0 then NaN else signed_inf (a < 0))"
| "js_mul (Fin a) (Fin b) = round_double (a * b)"

text \<open>\<open>Math.floor\<close>.\<close>

fun js_floor :: "jsnum \<Rightarrow> jsnum" where
  "js_floor (Fin a) = Fin (of_int \<lfloor>a\<rfloor>)"
| "js_floor x = x"

text \<open>
  The values a caller can pass: primitives, arrays without holes, and plain objects as the
  list of their own properties. Functions, symbols and objects with accessors or inherited
  properties are outside the model.
\<close>

datatype jsval =
    Undefined
  | Null
  | Bool bool
  | Num jsnum
  | Str string
  | Arr "jsval list"
  | Obj "(string \<times> jsval) list"

datatype jstype = TUndefined | TObject | TBoolean | TNumber | TString

fun typeof :: "jsval \<Rightarrow> jstype" where
  "typeof Undefined = TUndefined"
| "typeof Null = TObject"
| "typeof (Bool b) = TBoolean"
| "typeof (Num n) = TNumber"
| "typeof (Str s) = TString"
| "typeof (Arr xs) = TObject"
| "typeof (Obj ps) = TObject"

text \<open>The truth value of \<open>v\<close> in a condition; \<open>!v\<close> is its negation.\<close>

fun truthy :: "jsval \<Rightarrow> bool" where
  "truthy Undefined = False"
| "truthy Null = False"
| "truthy (Bool b) = b"
| "truthy (Num n) = (n \<noteq> NaN \<and> n \<noteq> Fin 0)"
| "truthy (Str s) = (s \<noteq> [])"
| "truthy (Arr xs) = True"
| "truthy (Obj ps) = True"

text \<open>
  Reading a property throws a \<open>TypeError\<close> on \<open>undefined\<close> and \<open>null\<close>. On the other
  values \<open>property v k\<close> is \<open>v.k\<close> for the property names this program reads (\<open>pid\<close>, \<open>items\<close>,
  \<open>price\<close>, \<open>quantity\<close>, \<open>code\<close> and the optional fields of the payload): an own property of an
  object, \<open>undefined\<close> when there is none, and \<open>undefined\<close> on a primitive or an array.
\<close>

datatype exception = TypeError

definition nullish :: "jsval \<Rightarrow> bool" where
  "nullish v = (v = Undefined \<or> v = Null)"

fun property :: "jsval \<Rightarrow> string \<Rightarrow> jsval" where
  "property (Obj ps) k = (case map_of ps k of None \<Rightarrow> Undefined | Some v \<Rightarrow> v)"
| "property v k = Undefined"

text \<open>The content of a value whose type the program has already checked.\<close>

fun string_of :: "jsval \<Rightarrow> string" where
  "string_of (Str s) = s"
| "string_of v = []"

fun elements_of :: "jsval \<Rightarrow> jsval list" where
  "elements_of (Arr xs) = xs"
| "elements_of v = []"

section \<open>The page around the script\<close>

text \<open>
  What a call reads from its surroundings: \<open>window.location.hostname\<close>, the result of
  \<open>new URLSearchParams(window.location.search).get('oneAccount')\<close> (\<open>None\<close> for \<open>null\<close>), the
  value of \<open>document.cookie\<close> when the call starts, the clock in milliseconds, the string
  \<open>Math.random().toString(36).substring(2, 11)\<close>, and whether the script tag carries
  \<open>data-oneaccountstoplog="1"\<close>. The clock does not advance during a call.
\<close>

record env =
  location_hostname :: string
  oneAccountParam :: "string option"
  document_cookie :: string
  date_now :: nat
  random_suffix :: string
  stopLog :: bool

text \<open>A URL before it is serialised: the base and the query parameters in order.\<close>

record url =
  base :: string
  params :: "(string \<times> jsval) list"

record img =
  width :: nat
  height :: nat
  alt :: string
  display :: string
  src :: "url option"

text \<open>
  An assignment to \<open>document.cookie\<close>. \<open>SetCookie name value expires domain\<close> is the string
  \<open>name=value;expires=<date>;path=/\<close> with \<open>expires\<close> the date in milliseconds, and
  \<open>DeleteCookie name domain\<close> is \<open>name=; Max-Age=-99999999;path=/\<close>; both end with
  \<open>;domain=<domain>\<close> when the domain is given.
\<close>

datatype cookie_assignment =
    SetCookie string string nat "string option"
  | DeleteCookie string "string option"

text \<open>The messages the script writes to the console, by the place that writes them.\<close>

datatype message =
    ContainerMissing
  | NotAnObject
  | PidInvalid
  | ItemsInvalid
  | PriceNotNumber nat
  | QuantityNotNumber nat
  | Received "string option" nat
  | UrlParamInvalid
  | ClickIdMissing
  | PostbackSent url
  | ClickCookieDeleted string
  | RelayCookieDeleted
  | LinkUpdated string

datatype console_entry = ConsoleLog message | ConsoleInfo message | ConsoleError message

text \<open>
  What a call can change: the images inside the element with id \<open>oneAccountSales\<close> in
  document order (\<open>None\<close> when the page has no such element), the images appended to
  \<open>document.body\<close>, the assignments to \<open>document.cookie\<close> and the console, each in order.
  The container is an element other than \<open>document.body\<close>.
\<close>

record browser =
  container :: "img list option"
  body_appended :: "img list"
  cookie_writes :: "cookie_assignment list"
  console :: "console_entry list"

definition logger_info :: "env \<Rightarrow> message \<Rightarrow> browser \<Rightarrow> browser" where
  "logger_info e m b = (if stopLog e then b else b\<lparr>console := console b @ [ConsoleInfo m]\<rparr>)"

definition logger_error :: "env \<Rightarrow> message \<Rightarrow> browser \<Rightarrow> browser" where
  "logger_error e m b = (if stopLog e then b else b\<lparr>console := console b @ [ConsoleError m]\<rparr>)"

section \<open>Cookies\<close>

text \<open>The \<open>domain\<close> attribute is left out for \<open>localhost\<close> and for a dotted quad.\<close>

definition domain_attribute :: "string \<Rightarrow> string option" where
  "domain_attribute domain = (if \<not> local_or_ip domain then Some domain else None)"

definition CookieUtil_set :: "env \<Rightarrow> string \<Rightarrow> string \<Rightarrow> nat \<Rightarrow> string \<Rightarrow> browser \<Rightarrow> browser" where
  "CookieUtil_set e name v days domain b =
     (let date = date_now e + days * 24 * 60 * 60 * 1000
      in b\<lparr>cookie_writes := cookie_writes b @ [SetCookie name v date (domain_attribute domain)]\<rparr>)"

fun find_cookie :: "string \<Rightarrow> string list \<Rightarrow> string option" where
  "find_cookie nameEQ [] = None"
| "find_cookie nameEQ (x # ca) =
     (let c = trim x
      in if take (length nameEQ) c = nameEQ then Some (drop (length nameEQ) c)
         else find_cookie nameEQ ca)"

definition CookieUtil_get :: "env \<Rightarrow> string \<Rightarrow> string option" where
  "CookieUtil_get e name =
     (let nameEQ = name @ ''='';
          ca = split_on (CHR '';'') (document_cookie e)
      in find_cookie nameEQ ca)"

definition CookieUtil_delete :: "string \<Rightarrow> string \<Rightarrow> browser \<Rightarrow> browser" where
  "CookieUtil_delete name domain b =
     b\<lparr>cookie_writes := cookie_writes b @ [DeleteCookie name (domain_attribute domain)]\<rparr>"

section \<open>The conversion reporter\<close>

subsection \<open>Phase 1: validation\<close>

fun isArray :: "jsval \<Rightarrow> bool" where
  "isArray (Arr xs) = True"
| "isArray v = False"

text \<open>
  One round of the \<open>forEach\<close> over \<open>items\<close>: reading \<open>item.price\<close> throws when the element is
  \<open>undefined\<close> or \<open>null\<close>, and the exception leaves \<open>oneAccountSales\<close>.
\<close>

definition validate_item :: "jsval \<Rightarrow> nat \<Rightarrow> exception + message list" where
  "validate_item item index =
     (if nullish item then Inl TypeError
      else Inr ((if typeof (property item ''price'') \<noteq> TNumber then [PriceNotNumber index] else []) @
                (if typeof (property item ''quantity'') \<noteq> TNumber
                 then [QuantityNotNumber index] else [])))"

fun validate_items :: "jsval list \<Rightarrow> nat \<Rightarrow> message list \<Rightarrow> exception + message list" where
  "validate_items [] index errors = Inr errors"
| "validate_items (item # rest) index errors =
     (case validate_item item index of
        Inl ex \<Rightarrow> Inl ex
      | Inr es \<Rightarrow> validate_items rest (Suc index) (errors @ es))"

text \<open>The list \<open>errors\<close> when the checks end, or the exception that ends them.\<close>

definition validate :: "jsval \<Rightarrow> exception + message list" where
  "validate dataObject =
     (if \<not> truthy dataObject \<or> typeof dataObject \<noteq> TObject then Inr [NotAnObject]
      else
        let pid_value = property dataObject ''pid'';
            errors = (if typeof pid_value \<noteq> TString \<or> length (string_of pid_value) \<noteq> 15
                      then [PidInvalid] else []);
            items_value = property dataObject ''items''
        in if \<not> isArray items_value \<or> length (elements_of items_value) = 0
           then Inr (errors @ [ItemsInvalid])
           else validate_items (elements_of items_value) 0 errors)"

subsection \<open>Phase 2: the click identifier\<close>

text \<open>The character class \<^verbatim>\<open>[A-Za-z0-9\-_.]\<close>.\<close>

definition allowed_char :: "char \<Rightarrow> bool" where
  "allowed_char c =
     (let n = (of_char c :: nat)
      in (65 \<le> n \<and> n \<le> 90) \<or> (97 \<le> n \<and> n \<le> 122) \<or> (48 \<le> n \<and> n \<le> 57)
         \<or> c = CHR ''-'' \<or> c = CHR ''_'' \<or> c = CHR ''.'')"

text \<open>\<^verbatim>\<open>/^[A-Za-z0-9\-_.]+$/.test(s)\<close>: one or more characters, all of the class.\<close>

definition matches_pattern :: "string \<Rightarrow> bool" where
  "matches_pattern s = (s \<noteq> [] \<and> list_all allowed_char s)"

definition valid_param :: "string \<Rightarrow> bool" where
  "valid_param s = (matches_pattern s \<and> length s \<ge> 92 \<and> length s \<le> 500)"

text \<open>\<open>oneAccountValue\<close> (\<open>None\<close> for \<open>null\<close>) and the page after lines 151 to 173.\<close>

definition resolve_click_id :: "env \<Rightarrow> string \<Rightarrow> browser \<Rightarrow> string option \<times> browser" where
  "resolve_click_id e pid_str b =
     (let rootDomain = getRootDomain (location_hostname e);
          cookieName = ''_oneAccount_'' @ pid_str;
          oneAccountParamFromUrl = oneAccountParam e;
          b1 = b\<lparr>console := console b @
                 [ConsoleLog (Received oneAccountParamFromUrl
                    (case oneAccountParamFromUrl of None \<Rightarrow> 0 | Some s \<Rightarrow> length s))]\<rparr>
      in case oneAccountParamFromUrl of
           None \<Rightarrow> (CookieUtil_get e cookieName, b1)
         | Some s \<Rightarrow>
             if s \<noteq> [] then
               (if valid_param s
                then (Some s, CookieUtil_set e cookieName s 3653 rootDomain b1)
                else (None, logger_error e UrlParamInvalid b1))
             else (CookieUtil_get e cookieName, b1))"

text \<open>\<open>!oneAccountValue\<close>: \<open>null\<close> or the empty string.\<close>

fun missing :: "string option \<Rightarrow> bool" where
  "missing None = True"
| "missing (Some s) = (s = [])"

subsection \<open>Phase 3: normalisation\<close>

record item =
  code :: string
  price :: jsnum
  quantity :: jsnum

text \<open>
  The object \<open>data\<close> after phase 3, by the fields the later phases read. \<open>pid\<close> is a string
  and every price and quantity a number, as phase 1 has checked.
\<close>

record data =
  pid :: string
  order_number :: string
  currency :: string
  items :: "item list"
  total_price :: jsnum
  amount_priority :: jsval
  coupon :: jsval
  repeat :: jsval

text \<open>\<open>Number(v)\<close> for a value of type number, the only type phase 1 lets through.\<close>

fun number_of :: "jsval \<Rightarrow> jsnum" where
  "number_of (Num n) = n"
| "number_of v = NaN"

text \<open>\<open>n || 0\<close> for a number: \<open>NaN\<close> and zero are the numbers that count as false.\<close>

definition or_zero :: "jsnum \<Rightarrow> jsnum" where
  "or_zero n = (if truthy (Num n) then n else Fin 0)"

text \<open>\<open>Number.isInteger(v) && v > 0 && v <= 9999\<close>.\<close>

fun quantity_ok :: "jsval \<Rightarrow> bool" where
  "quantity_ok (Num (Fin a)) = (of_int \<lfloor>a\<rfloor> = a \<and> a > 0 \<and> a \<le> 9999)"
| "quantity_ok v = False"

definition normalize_item :: "jsval \<Rightarrow> item" where
  "normalize_item it =
     \<lparr>code = (if typeof (property it ''code'') = TString
                 \<and> length (string_of (property it ''code'')) > 0
              then take 50 (string_of (property it ''code'')) else ''oneAccount''),
      price = or_zero (number_of (property it ''price'')),
      quantity = (if quantity_ok (property it ''quantity'')
                  then number_of (property it ''quantity'') else Fin 1)\<rparr>"

definition generated_order_number :: "env \<Rightarrow> string" where
  "generated_order_number e = ''null-'' @ decimal (date_now e) @ ''-'' @ random_suffix e"

definition normalize_order_number :: "env \<Rightarrow> jsval \<Rightarrow> string" where
  "normalize_order_number e v =
     (if typeof v = TString \<and> length (string_of v) > 0 then take 50 (string_of v)
      else generated_order_number e)"

definition validCurrencies :: "string list" where
  "validCurrencies = [''JPY'', ''AUD'', ''CHF'']"

definition normalize_currency :: "jsval \<Rightarrow> string" where
  "normalize_currency v =
     (if typeof v = TString \<and> toUpperCase (string_of v) \<in> set validCurrencies
      then toUpperCase (string_of v) else ''JPY'')"

text \<open>\<open>items.reduce((total, item) => total + (item.price * item.quantity), 0)\<close>.\<close>

definition reduce_total :: "item list \<Rightarrow> jsnum" where
  "reduce_total its = foldl (\<lambda>total it. js_add total (js_mul (price it) (quantity it))) (Fin 0) its"

definition normalize_total_price :: "jsval \<Rightarrow> string \<Rightarrow> item list \<Rightarrow> jsnum" where
  "normalize_total_price v cur its =
     (if typeof v \<noteq> TNumber
      then (let t = reduce_total its in if cur = ''JPY'' then js_floor t else t)
      else number_of v)"

definition normalize_data :: "env \<Rightarrow> jsval \<Rightarrow> data" where
  "normalize_data e dataObject =
     (let cur = normalize_currency (property dataObject ''currency'');
          its = map normalize_item (elements_of (property dataObject ''items''))
      in \<lparr>pid = string_of (property dataObject ''pid''),
          order_number = normalize_order_number e (property dataObject ''order_number''),
          currency = cur,
          items = its,
          total_price = normalize_total_price (property dataObject ''total_price'') cur its,
          amount_priority = property dataObject ''amount_priority'',
          coupon = property dataObject ''coupon'',
          repeat = property dataObject ''repeat''\<rparr>)"

subsection \<open>Phase 4: the final amount\<close>

definition finalAmount :: "data \<Rightarrow> jsval \<Rightarrow> jsnum" where
  "finalAmount d dataObject =
     (if amount_priority d = Str ''total_price''
         \<and> typeof (property dataObject ''total_price'') = TNumber
      then number_of (property dataObject ''total_price'')
      else total_price d)"

subsection \<open>Phase 5: the tracking URL\<close>

definition ONEACCOUNT_SALES_SERVER_URL :: string where
  "ONEACCOUNT_SALES_SERVER_URL = ''https://px.oneaccount.net/oneaccountfly/sales''"

fun item_entries :: "item list \<Rightarrow> nat \<Rightarrow> (string \<times> jsval) list" where
  "item_entries [] index = []"
| "item_entries (it # rest) index =
     [(''i['' @ decimal index @ ''][sc]'', Str (code it)),
      (''i['' @ decimal index @ ''][p]'', Num (price it)),
      (''i['' @ decimal index @ ''][q]'', Num (quantity it))] @ item_entries rest (Suc index)"

text \<open>
  The object \<open>query\<close>, its keys in the order \<open>Object.keys\<close> gives them. \<open>to_string\<close> stands for
  the conversion \<open>String(v)\<close> of an arbitrary value.
\<close>

definition query :: "(jsval \<Rightarrow> string) \<Rightarrow> data \<Rightarrow> string \<Rightarrow> jsnum \<Rightarrow> (string \<times> jsval) list" where
  "query to_string d oneAccountValue amount =
     [(''pid'', Str (pid d)), (''oneAccount'', Str oneAccountValue), (''o'', Str (order_number d)),
      (''c'', Str (currency d)), (''p'', Num amount)]
     @ item_entries (items d) 0
     @ (if truthy (coupon d) then [(''coupon'', Str (take 50 (to_string (coupon d))))] else [])
     @ (if repeat d = Bool True then [(''repeat'', Str ''1'')] else [])"

definition trackingUrl :: "(jsval \<Rightarrow> string) \<Rightarrow> data \<Rightarrow> string \<Rightarrow> jsnum \<Rightarrow> url" where
  "trackingUrl to_string d oneAccountValue amount =
     \<lparr>base = ONEACCOUNT_SALES_SERVER_URL, params = query to_string d oneAccountValue amount\<rparr>"

subsection \<open>Phase 6: the requests\<close>

text \<open>The image element both requests create: one pixel, hidden, no \<open>src\<close> yet.\<close>

definition created_img :: img where
  "created_img = \<lparr>width = 1, height = 1, alt = [], display = ''none'', src = None\<rparr>"

text \<open>
  Lines 242 to 251: the first image inside the container is reused as it is, and a new
  one is appended when there is none. The assignment \<open>img.src = trackingUrl\<close> of line 255
  is commented out in the source, so no \<open>src\<close> is set here. Without a container
  \<open>container.querySelector\<close> throws.
\<close>

definition primary_image :: "browser \<Rightarrow> exception + browser" where
  "primary_image b =
     (case container b of
        None \<Rightarrow> Inl TypeError
      | Some imgs \<Rightarrow>
          (if imgs = [] then Inr (b\<lparr>container := Some (imgs @ [created_img])\<rparr>) else Inr b))"

definition aspPostbackUrl :: "string \<Rightarrow> jsnum \<Rightarrow> string \<Rightarrow> url" where
  "aspPostbackUrl oneAccountValue amount order =
     \<lparr>base = ''http://asp-site.local:8080/asp-conversion-pixel.gif'',
      params = [(''click_id'', Str oneAccountValue), (''order_total'', Num amount),
                (''order_number'', Str order)]\<rparr>"

definition asp_postback :: "env \<Rightarrow> data \<Rightarrow> string \<Rightarrow> jsnum \<Rightarrow> browser \<Rightarrow> browser" where
  "asp_postback e d oneAccountValue amount b =
     (let u = aspPostbackUrl oneAccountValue amount (order_number d);
          aspImg = created_img\<lparr>src := Some u\<rparr>
      in logger_info e (PostbackSent u) (b\<lparr>body_appended := body_appended b @ [aspImg]\<rparr>))"

subsection \<open>Phase 7: the cookies\<close>

definition cleanup :: "env \<Rightarrow> data \<Rightarrow> browser \<Rightarrow> browser" where
  "cleanup e d b =
     (let rootDomain = getRootDomain (location_hostname e);
          cookieName = ''_oneAccount_'' @ pid d;
          b1 = (if repeat d \<noteq> Bool True
                then logger_info e (ClickCookieDeleted cookieName)
                       (CookieUtil_delete cookieName rootDomain b)
                else b)
      in logger_info e RelayCookieDeleted (CookieUtil_delete ''ONEACCOUNT_DELIVERY'' rootDomain b1))"

subsection \<open>The function\<close>

text \<open>How a call ends: with an exception, at one of the three early returns, or at the end.\<close>

datatype outcome =
    Threw exception
  | NoContainer
  | Invalid
  | NoClickId
  | Completed

definition oneAccountSales :: "env \<Rightarrow> jsval \<Rightarrow> browser \<Rightarrow> outcome \<times> browser" where
  "oneAccountSales e dataObject b =
     (if container b = None then (NoContainer, logger_error e ContainerMissing b)
      else
        case validate dataObject of
          Inl ex \<Rightarrow> (Threw ex, b)
        | Inr errors \<Rightarrow>
            if length errors > 0 then (Invalid, fold (logger_error e) errors b)
            else
              (case resolve_click_id e (string_of (property dataObject ''pid'')) b of
                 (oneAccountValue, b2) \<Rightarrow>
                   if missing oneAccountValue then (NoClickId, logger_error e ClickIdMissing b2)
                   else
                     let d = normalize_data e dataObject;
                         amount = finalAmount d dataObject;
                         v = (case oneAccountValue of None \<Rightarrow> [] | Some s \<Rightarrow> s)
                     in (case primary_image b2 of
                           Inl ex \<Rightarrow> (Threw ex, b2)
                         | Inr b3 \<Rightarrow> (Completed, cleanup e d (asp_postback e d v amount b3)))))"

section \<open>The cross-domain propagator\<close>

record anchor =
  href :: string
  hostname :: string

definition PARAM_KEY :: string where
  "PARAM_KEY = ''oneAccount''"

text \<open>
  \<open>CROSS_DOMAIN.updateAnchorHref\<close>: the anchor after the call, and the page with the console
  line of a rewrite. \<open>href\<close> and \<open>hostname\<close> are the anchor's properties as the browser
  gives them; the new \<open>href\<close> is the string the function assigns.
\<close>

definition updateAnchorHref :: "env \<Rightarrow> anchor \<Rightarrow> string \<Rightarrow> browser \<Rightarrow> anchor \<times> browser" where
  "updateAnchorHref e a oneAccountValue b =
     (if href a = [] \<or> hostname a = location_hostname e then (a, b)
      else if js_includes (href a) (PARAM_KEY @ ''='') then (a, b)
      else
        let hashIndex = indexOf (href a) (CHR ''#'');
            hash = (case hashIndex of None \<Rightarrow> [] | Some i \<Rightarrow> drop i (href a));
            newHref = (case hashIndex of None \<Rightarrow> href a | Some i \<Rightarrow> take i (href a));
            newHref2 = newHref @ (if js_includes newHref ''?'' then ''&'' else ''?'')
                         @ PARAM_KEY @ ''='' @ oneAccountValue;
            a2 = a\<lparr>href := newHref2 @ hash\<rparr>
        in (a2, logger_info e (LinkUpdated (href a2)) b))"

section \<open>The specification's words, and the README's test page\<close>

text \<open>
  The sum of price times quantity over a list of items: the products are added one after
  the other in the order of the items, starting from zero, each product and each sum a
  double. The largest integer not above a number.
\<close>

primrec sum_from :: "jsnum \<Rightarrow> jsnum list \<Rightarrow> jsnum" where
  "sum_from acc [] = acc"
| "sum_from acc (x # xs) = sum_from (js_add acc x) xs"

definition sum_of_products :: "item list \<Rightarrow> jsnum" where
  "sum_of_products its = sum_from (Fin 0) (map (\<lambda>it. js_mul (price it) (quantity it)) its)"

definition floored :: "jsnum \<Rightarrow> jsnum" where
  "floored n = (case n of Fin x \<Rightarrow> Fin (of_int \<lfloor>x\<rfloor>) | _ \<Rightarrow> n)"

text \<open>
  The doubles that the literals \<open>0.7\<close>, \<open>0.1\<close>, \<open>0.2\<close>, \<open>0.30000000000000004\<close>, \<open>999.9\<close> and
  \<open>1e308\<close> denote.
\<close>

definition double_0_1 :: real where
  "double_0_1 = 3602879701896397 / 36028797018963968"

definition double_0_2 :: real where
  "double_0_2 = 3602879701896397 / 18014398509481984"

definition double_0_3_above :: real where
  "double_0_3_above = 1351079888211149 / 4503599627370496"

definition double_0_7 :: real where
  "double_0_7 = 3152519739159347 / 4503599627370496"

definition double_999_9 :: real where
  "double_999_9 = 8795213412905779 / 8796093022208"

definition double_1e308 :: real where
  "double_1e308 =
     100000000000000001097906362944045541740492309677311846336810682903157585404911491537163328978494688899061249669721172515611590283743140088328307009198146046031271664502933027185697489699588559043338384466165001178426897626212945177628091195786707458122783970171784415105291802893207873272974885715430223118336"

text \<open>Two items of price \<open>0.1\<close> and \<open>0.2\<close>, one of each, in \<open>AUD\<close>.\<close>

definition payload_tenths :: jsval where
  "payload_tenths =
     Obj [(''pid'', Str ''s00000000000001''),
          (''items'',
           Arr [Obj [(''price'', Num (Fin double_0_1)), (''quantity'', Num (Fin 1))],
                Obj [(''price'', Num (Fin double_0_2)), (''quantity'', Num (Fin 1))]]),
          (''currency'', Str ''AUD'')]"

text \<open>A payload of one item without \<open>total_price\<close>.\<close>

definition one_item_payload :: "real \<Rightarrow> real \<Rightarrow> string \<Rightarrow> jsval" where
  "one_item_payload item_price item_quantity cur =
     Obj [(''pid'', Str ''s00000000000001''),
          (''items'', Arr [Obj [(''price'', Num (Fin item_price)),
                                (''quantity'', Num (Fin item_quantity))]]),
          (''currency'', Str cur)]"

text \<open>
  The call of the README's \<open>cv.html\<close>, on a page with an empty container, no URL parameter
  and the click identifier \<open>click-1\<close> in the per-program cookie.
\<close>

definition cv_payload :: jsval where
  "cv_payload =
     Obj [(''pid'', Str ''s00000000000001''),
          (''items'',
           Arr [Obj [(''code'', Str ''item-001''), (''price'', Num (Fin 1000)),
                     (''quantity'', Num (Fin 2))],
                Obj [(''code'', Str ''item-002''), (''price'', Num (Fin 500)),
                     (''quantity'', Num (Fin 1))]]),
          (''order_number'', Str ''ORDER-12345''),
          (''total_price'', Num (Fin 2500)),
          (''currency'', Str ''JPY'')]"

definition cv_env :: env where
  "cv_env =
     \<lparr>location_hostname = ''another-site.local'', oneAccountParam = None,
      document_cookie = ''ONEACCOUNT_DELIVERY=click-1; _oneAccount_s00000000000001=click-1'',
      date_now = 1700000000000, random_suffix = ''k3j9x0a1b'', stopLog = False\<rparr>"

definition cv_page :: browser where
  "cv_page = \<lparr>container = Some [], body_appended = [], cookie_writes = [], console = []\<rparr>"

text \<open>
  The payloads of the specification's examples. The literal \<open>999.9\<close> of the second is written
  as the decimal it is: that \<open>total_price\<close> is passed on and never computed with.
\<close>

definition payload_2500 :: jsval where
  "payload_2500 =
     Obj [(''pid'', Str ''s00000000000001''),
          (''items'',
           Arr [Obj [(''price'', Num (Fin 1000)), (''quantity'', Num (Fin 2))],
                Obj [(''price'', Num (Fin 500)), (''quantity'', Num (Fin 1))]]),
          (''currency'', Str ''JPY'')]"

definition payload_priority :: jsval where
  "payload_priority =
     Obj [(''pid'', Str ''s00000000000001''),
          (''items'', Arr [Obj [(''price'', Num (Fin 1000)), (''quantity'', Num (Fin 2))]]),
          (''currency'', Str ''JPY''),
          (''total_price'', Num (Fin (9999 / 10))),
          (''amount_priority'', Str ''total_price'')]"

text \<open>
  The same page reached with the parameter the README's \<open>asp-redirect.html\<close> generates
  (\<open>click-\<close>, the time stamp, a random suffix): 29 characters.
\<close>

definition cv_redirect_env :: env where
  "cv_redirect_env = cv_env\<lparr>oneAccountParam := Some ''click-1700000000000-k3j9x0a1b''\<rparr>"

text \<open>A click identifier of 92 allowed characters.\<close>

definition token92 :: string where
  "token92 = replicate 92 (CHR ''a'')"

text \<open>A repeat order, a payload with \<open>null\<close> in \<open>items\<close>, and one whose only item has \<open>NaN\<close>
  as price and as quantity.\<close>

definition payload_repeat :: jsval where
  "payload_repeat =
     Obj [(''pid'', Str ''s00000000000001''),
          (''items'', Arr [Obj [(''price'', Num (Fin 1000)), (''quantity'', Num (Fin 2))]]),
          (''repeat'', Bool True)]"

definition payload_null_item :: jsval where
  "payload_null_item = Obj [(''pid'', Str ''short''), (''items'', Arr [Null])]"


text \<open>
  The names of the query parameters of a link: the part after the first \<open>?\<close> and before the
  first \<open>#\<close>, split at \<open>&\<close>, each piece up to its first \<open>=\<close>. A link carries a parameter when
  its name is among them.
\<close>

definition query_names :: "string \<Rightarrow> string list" where
  "query_names u =
     (let q = drop 1 (dropWhile (\<lambda>c. c \<noteq> CHR ''?'') (takeWhile (\<lambda>c. c \<noteq> CHR ''#'') u))
      in if q = [] then [] else map (takeWhile (\<lambda>c. c \<noteq> CHR ''='')) (split_on (CHR ''&'') q))"

definition carries_parameter :: "string \<Rightarrow> string \<Rightarrow> bool" where
  "carries_parameter u name = (name \<in> set (query_names u))"

text \<open>A link to the other site of the README with a parameter of a similar name.\<close>

definition similar_name_anchor :: anchor where
  "similar_name_anchor =
     \<lparr>href = ''http://another-site.local:8080/cv.html?notoneAccount=1'',
      hostname = ''another-site.local''\<rparr>"

text \<open>The landing page of the README, on \<open>test-site.local\<close>.\<close>

definition landing_env :: env where
  "landing_env =
     \<lparr>location_hostname = ''test-site.local'', oneAccountParam = None,
      document_cookie = ''ONEACCOUNT_DELIVERY=abc'', date_now = 1700000000000,
      random_suffix = ''k3j9x0a1b'', stopLog = False\<rparr>"

section \<open>Properties of the string functions\<close>

lemma split_on_nonempty: "split_on c s \<noteq> []"
  by (induction s) (auto split: list.splits)

lemma join_split_on: "join_with [c] (split_on c s) = s"
proof (induction s)
  case Nil
  show ?case by simp
next
  case (Cons x xs)
  obtain p ps where ps: "split_on c xs = p # ps"
    using split_on_nonempty [of c xs] by (cases "split_on c xs") auto
  show ?case
  proof (cases "x = c")
    case True
    with Cons ps show ?thesis by simp
  next
    case False
    with Cons ps show ?thesis by (cases ps) auto
  qed
qed

lemma slice_last_all: "length xs \<le> n \<Longrightarrow> slice_last n xs = xs"
  by (simp add: slice_last_def)

lemma js_includes_single: "js_includes s [c] = (c \<in> set s)"
  by (induction s) auto

lemma indexOf_None:
  "indexOf s c = None \<Longrightarrow>
     takeWhile (\<lambda>x. x \<noteq> c) s = s \<and> dropWhile (\<lambda>x. x \<noteq> c) s = []"
  by (induction s) (auto split: if_splits)

lemma indexOf_Some:
  "indexOf s c = Some i \<Longrightarrow>
     take i s = takeWhile (\<lambda>x. x \<noteq> c) s \<and> drop i s = dropWhile (\<lambda>x. x \<noteq> c) s"
proof (induction s arbitrary: i)
  case Nil
  then show ?case by simp
next
  case (Cons x xs)
  show ?case
  proof (cases "x = c")
    case True
    with Cons.prems show ?thesis by simp
  next
    case False
    with Cons.prems obtain j where j: "indexOf xs c = Some j" "i = Suc j"
      by auto
    with Cons.IH [of j] False show ?thesis by simp
  qed
qed

section \<open>Properties of the numbers\<close>

lemma bit_length_le: "n < 2 ^ k \<Longrightarrow> bit_length n \<le> k"
proof (induction k arbitrary: n)
  case 0
  then show ?case by (simp add: bit_length.simps)
next
  case (Suc k)
  show ?case
  proof (cases "n = 0")
    case True
    then show ?thesis by (simp add: bit_length.simps)
  next
    case False
    from Suc.prems have "n div 2 < 2 ^ k" by simp
    from Suc.IH [OF this] False show ?thesis
      by (subst bit_length.simps) simp
  qed
qed

lemma round_half_even_int: "round_half_even (of_int m) = m"
  by (simp add: round_half_even_def)

lemma pow_53_1024: "(2::real) ^ 53 \<le> 2 ^ 1024"
  by (rule power_increasing) simp_all

text \<open>An integer below \<open>2 ^ 53\<close> in absolute value is a double, and rounding leaves it.\<close>

lemma round_double_int:
  assumes "x \<in> \<int>" and "\<bar>x\<bar> < 2 ^ 53"
  shows "round_double x = Fin x"
proof (cases "x = 0")
  case True
  then show ?thesis by (simp add: round_double_def)
next
  case False
  from assms(1) obtain n where n: "x = of_int n" by (auto elim: Ints_cases)
  with False have n0: "n \<noteq> 0" by simp
  then have ge: "1 \<le> \<bar>x\<bar>" using n by simp
  have "real_of_int \<bar>n\<bar> < real_of_int (2 ^ 53)"
    using assms(2) unfolding n by (simp only: of_int_abs of_int_power of_int_numeral)
  then have "\<bar>n\<bar> < 2 ^ 53" by (simp only: of_int_less_iff)
  then have "nat \<bar>n\<bar> < nat (2 ^ 53)" by (simp only: nat_mono_iff) 
  then have "nat \<bar>n\<bar> < 2 ^ 53" by (simp only: nat_power_eq nat_numeral)
  then have b: "bit_length (nat \<bar>n\<bar>) \<le> 53" by (rule bit_length_le)
  have fl: "\<lfloor>\<bar>x\<bar>\<rfloor> = \<bar>n\<bar>" unfolding n by (metis of_int_abs floor_of_int)
  have e: "binary_exponent x \<le> 52"
    unfolding binary_exponent_def fl using ge b by simp
  define q where "q = max (binary_exponent x - 52) (- 1074)"
  define j where "j = nat (- q)"
  have q: "q \<le> 0" using e by (simp add: q_def)
  then have p: "pow2 q = 1 / 2 ^ j"
    by (cases "q = 0") (simp_all add: pow2_def j_def)
  have "x / pow2 q = of_int (n * 2 ^ j)"
    by (simp add: p n)
  then have "round_half_even (x / pow2 q) = n * 2 ^ j"
    by (simp only: round_half_even_int)
  then have r: "of_int (round_half_even (x / pow2 q)) * pow2 q = x"
    by (simp add: p n)
  have big: "\<not> 2 ^ 1024 \<le> \<bar>x\<bar>"
    using assms(2) pow_53_1024 by linarith
  show ?thesis
    unfolding round_double_def Let_def q_def [symmetric] r using False big
    by (simp only: if_False)
qed

lemmas round_double_eval = round_double_def binary_exponent_def round_half_even_def pow2_def
  bit_length.simps Let_def

text \<open>
  Three products and a sum as the doubles give them: \<open>0.7 * 10\<close> is 7, \<open>0.1 * 3\<close> and
  \<open>0.1 + 0.2\<close> are \<open>0.30000000000000004\<close>, and \<open>1e308 * 10\<close> is \<open>Infinity\<close>.
\<close>

lemma round_0_7_by_10: "round_double (double_0_7 * 10) = Fin 7"
  by (simp add: double_0_7_def round_double_eval)

lemma product_0_7_by_10: "js_mul (Fin double_0_7) (Fin 10) = Fin 7"
  by (simp add: round_0_7_by_10)

lemma product_0_1_by_3: "js_mul (Fin double_0_1) (Fin 3) = Fin double_0_3_above"
  by (simp add: double_0_1_def double_0_3_above_def round_double_eval)

lemma round_0_1_plus_0_2: "round_double (double_0_1 + double_0_2) = Fin double_0_3_above"
  by (simp add: double_0_1_def double_0_2_def double_0_3_above_def round_double_eval)

lemma sum_0_1_and_0_2: "js_add (Fin double_0_1) (Fin double_0_2) = Fin double_0_3_above"
  by (simp add: round_0_1_plus_0_2)

lemma round_0_1: "round_double double_0_1 = Fin double_0_1"
  by (simp add: double_0_1_def round_double_eval)

lemma round_0_2: "round_double double_0_2 = Fin double_0_2"
  by (simp add: double_0_2_def round_double_eval)

lemma product_overflow: "js_mul (Fin double_1e308) (Fin 10) = PosInf"
  by (simp add: double_1e308_def round_double_eval)

text \<open>The \<open>reduce\<close> of the source is the sum of the products in the order of the items.\<close>

lemma foldl_sum_from:
  "foldl (\<lambda>total it. js_add total (f it)) a its = sum_from a (map f its)"
  by (induction its arbitrary: a) simp_all

lemma reduce_total_sum: "reduce_total its = sum_of_products its"
  by (simp add: reduce_total_def sum_of_products_def foldl_sum_from)

lemma js_floor_floored: "js_floor n = floored n"
  by (cases n) (simp_all add: floored_def)

lemma number_of_Num: "typeof v = TNumber \<Longrightarrow> Num (number_of v) = v"
  by (cases v) simp_all

section \<open>Properties of the phases\<close>

lemma logger_error_fields [simp]:
  "container (logger_error e m b) = container b"
  "body_appended (logger_error e m b) = body_appended b"
  "cookie_writes (logger_error e m b) = cookie_writes b"
  by (simp_all add: logger_error_def)

lemma logger_info_fields [simp]:
  "container (logger_info e m b) = container b"
  "body_appended (logger_info e m b) = body_appended b"
  "cookie_writes (logger_info e m b) = cookie_writes b"
  by (simp_all add: logger_info_def)

lemma fold_logger_error_fields [simp]:
  "container (fold (logger_error e) ms b) = container b"
  "body_appended (fold (logger_error e) ms b) = body_appended b"
  "cookie_writes (fold (logger_error e) ms b) = cookie_writes b"
  by (induction ms arbitrary: b) simp_all

lemma resolve_click_id_dom:
  "container (snd (resolve_click_id e s b)) = container b"
  "body_appended (snd (resolve_click_id e s b)) = body_appended b"
  by (simp_all add: resolve_click_id_def CookieUtil_set_def Let_def split: option.splits)

lemma resolve_click_id_writes:
  "cookie_writes (snd (resolve_click_id e s b)) =
     cookie_writes b @
       (case oneAccountParam e of
          None \<Rightarrow> []
        | Some x \<Rightarrow>
            if valid_param x
            then [SetCookie (''_oneAccount_'' @ s) x (date_now e + 3653 * 24 * 60 * 60 * 1000)
                    (domain_attribute (getRootDomain (location_hostname e)))]
            else [])"
  by (auto simp add: resolve_click_id_def CookieUtil_set_def Let_def valid_param_def
      matches_pattern_def split: option.splits)

lemma cleanup_writes:
  "cookie_writes (cleanup e d b) =
     cookie_writes b @
       (if repeat d \<noteq> Bool True
        then [DeleteCookie (''_oneAccount_'' @ pid d)
                (domain_attribute (getRootDomain (location_hostname e)))]
        else []) @
       [DeleteCookie ''ONEACCOUNT_DELIVERY''
          (domain_attribute (getRootDomain (location_hostname e)))]"
  by (simp add: cleanup_def CookieUtil_delete_def Let_def)

lemma cleanup_dom:
  "container (cleanup e d b) = container b"
  "body_appended (cleanup e d b) = body_appended b"
  by (simp_all add: cleanup_def CookieUtil_delete_def Let_def)

lemma asp_postback_fields:
  "container (asp_postback e d v amount b) = container b"
  "cookie_writes (asp_postback e d v amount b) = cookie_writes b"
  "body_appended (asp_postback e d v amount b) =
     body_appended b @ [created_img\<lparr>src := Some (aspPostbackUrl v amount (order_number d))\<rparr>]"
  by (simp_all add: asp_postback_def Let_def)

lemma missing_iff: "\<not> missing x \<longleftrightarrow> (\<exists>v. x = Some v \<and> v \<noteq> [])"
  by (cases x) simp_all

text \<open>A call that passes the three early returns runs phases 3 to 7.\<close>

lemma oneAccountSales_completed:
  assumes c: "container b = Some imgs"
    and v: "validate p = Inr []"
    and r: "resolve_click_id e (string_of (property p ''pid'')) b = (Some v, b2)"
    and n: "v \<noteq> []"
  shows "oneAccountSales e p b =
           (Completed,
            cleanup e (normalize_data e p)
              (asp_postback e (normalize_data e p) v (finalAmount (normalize_data e p) p)
                 (if imgs = [] then b2\<lparr>container := Some [created_img]\<rparr> else b2)))"
proof -
  have "container b2 = Some imgs"
    using resolve_click_id_dom(1) [of e "string_of (property p ''pid'')" b] r c by simp
  with c v r n show ?thesis
    by (simp add: oneAccountSales_def primary_image_def Let_def)
qed

lemma oneAccountSales_completedD:
  assumes "fst (oneAccountSales e p b) = Completed"
  shows "\<exists>imgs v b2. container b = Some imgs \<and> validate p = Inr []
           \<and> resolve_click_id e (string_of (property p ''pid'')) b = (Some v, b2) \<and> v \<noteq> []"
proof -
  from assms obtain imgs where c: "container b = Some imgs"
    by (cases "container b") (simp_all add: oneAccountSales_def)
  from assms c have v: "validate p = Inr []"
    by (auto simp add: oneAccountSales_def split: sum.splits if_splits)
  obtain x b2 where r: "resolve_click_id e (string_of (property p ''pid'')) b = (x, b2)"
    by (cases "resolve_click_id e (string_of (property p ''pid'')) b")
  from assms c v r have "\<not> missing x"
    by (auto simp add: oneAccountSales_def split: if_splits)
  then obtain s where "x = Some s" "s \<noteq> []"
    by (auto simp add: missing_iff)
  with c v r show ?thesis by blast
qed

text \<open>
  The images inside the container after a call: those of before, or one created image
  without \<open>src\<close> when the call ran to its end on an empty container. No call sets the \<open>src\<close>
  of an image inside the container.
\<close>

lemma container_after_call:
  assumes "container b = Some imgs"
  shows "container (snd (oneAccountSales e p b)) =
           Some (if fst (oneAccountSales e p b) = Completed \<and> imgs = [] then [created_img] else imgs)"
proof (cases "fst (oneAccountSales e p b) = Completed")
  case True
  from oneAccountSales_completedD [OF True] assms obtain v b2 where
    h: "validate p = Inr []"
       "resolve_click_id e (string_of (property p ''pid'')) b = (Some v, b2)" "v \<noteq> []"
    by auto
  have "container b2 = Some imgs"
    using resolve_click_id_dom(1) [of e "string_of (property p ''pid'')" b] h(2) assms by simp
  then show ?thesis
    using True oneAccountSales_completed [OF assms h]
    by (simp add: cleanup_dom asp_postback_fields)
next
  case False
  obtain x b2 where r: "resolve_click_id e (string_of (property p ''pid'')) b = (x, b2)"
    by (cases "resolve_click_id e (string_of (property p ''pid'')) b")
  have c2: "container b2 = Some imgs"
    using resolve_click_id_dom(1) [of e "string_of (property p ''pid'')" b] r assms by simp
  from False assms r c2 show ?thesis
    by (auto simp add: oneAccountSales_def primary_image_def Let_def split: sum.splits if_splits)
qed

text \<open>What a completed call reports to the partner: the final amount of phase 4.\<close>

lemma reported_amount:
  assumes "oneAccountSales e p b = (Completed, b')"
  shows "\<exists>v. body_appended b' =
           body_appended b @
             [created_img\<lparr>src := Some (aspPostbackUrl v (finalAmount (normalize_data e p) p)
                                       (order_number (normalize_data e p)))\<rparr>]"
proof -
  from assms have "fst (oneAccountSales e p b) = Completed" by simp
  from oneAccountSales_completedD [OF this] obtain imgs v b2 where
    h: "container b = Some imgs" "validate p = Inr []"
       "resolve_click_id e (string_of (property p ''pid'')) b = (Some v, b2)" "v \<noteq> []"
    by blast
  have "body_appended b2 = body_appended b"
    using resolve_click_id_dom(2) [of e "string_of (property p ''pid'')" b] h(3) by simp
  with assms oneAccountSales_completed [OF h] show ?thesis
    by (auto simp add: cleanup_dom asp_postback_fields)
qed

text \<open>The definitions that evaluate the normalisation of a concrete payload.\<close>

lemmas normalize_defs = normalize_data_def normalize_item_def normalize_order_number_def
  normalize_currency_def normalize_total_price_def reduce_total_def or_zero_def
  validCurrencies_def toUpperCase_def upper_char_def Let_def

section \<open>The README's call, evaluated\<close>

lemmas cookie_get_defs = CookieUtil_get_def trim_def is_space_def Let_def

lemma validate_cv: "validate cv_payload = Inr []"
  by (simp add: cv_payload_def validate_def validate_item_def nullish_def Let_def)

lemma cookie_cv: "CookieUtil_get cv_env ''_oneAccount_s00000000000001'' = Some ''click-1''"
  by (simp add: cv_env_def cookie_get_defs)

lemma resolve_cv:
  "resolve_click_id cv_env ''s00000000000001'' cv_page =
     (Some ''click-1'', cv_page\<lparr>console := [ConsoleLog (Received None 0)]\<rparr>)"
proof -
  have "oneAccountParam cv_env = None" by (simp add: cv_env_def)
  then show ?thesis
    by (simp add: resolve_click_id_def Let_def cookie_cv cv_page_def)
qed

lemma host_cv: "domain_attribute (getRootDomain (location_hostname cv_env)) = Some ''another-site.local''"
  by (simp add: cv_env_def getRootDomain_def local_or_ip_def digit_group_def is_digit_def
      domain_attribute_def slds_def slice_last_def)

lemma run_cv:
  "oneAccountSales cv_env cv_payload cv_page =
     (Completed,
      cleanup cv_env (normalize_data cv_env cv_payload)
        (asp_postback cv_env (normalize_data cv_env cv_payload) ''click-1''
           (finalAmount (normalize_data cv_env cv_payload) cv_payload)
           (cv_page\<lparr>console := [ConsoleLog (Received None 0)], container := Some [created_img]\<rparr>)))"
proof -
  have c: "container cv_page = Some []" by (simp add: cv_page_def)
  have r: "resolve_click_id cv_env (string_of (property cv_payload ''pid'')) cv_page =
     (Some ''click-1'', cv_page\<lparr>console := [ConsoleLog (Received None 0)]\<rparr>)"
    using resolve_cv by (simp add: cv_payload_def)
  show ?thesis
    using oneAccountSales_completed [OF c validate_cv r] by simp
qed

lemma data_cv:
  "normalize_data cv_env cv_payload =
     \<lparr>pid = ''s00000000000001'', order_number = ''ORDER-12345'', currency = ''JPY'',
      items = [\<lparr>code = ''item-001'', price = Fin 1000, quantity = Fin 2\<rparr>,
               \<lparr>code = ''item-002'', price = Fin 500, quantity = Fin 1\<rparr>],
      total_price = Fin 2500, amount_priority = Undefined, coupon = Undefined,
      repeat = Undefined\<rparr>"
  by (simp add: cv_payload_def normalize_defs)

lemma amount_cv: "finalAmount (normalize_data cv_env cv_payload) cv_payload = Fin 2500"
  by (simp add: data_cv finalAmount_def)

lemma validate_repeat: "validate payload_repeat = Inr []"
  by (simp add: payload_repeat_def validate_def validate_item_def nullish_def Let_def)

section \<open>Properties of the validation\<close>


lemma validate_items_total:
  assumes "\<forall>it \<in> set its. \<not> nullish it"
  shows "\<exists>es. validate_items its index errors = Inr es"
  using assms
proof (induction its arbitrary: index errors)
  case Nil
  show ?case by simp
next
  case (Cons it its)
  then have "\<not> nullish it" by simp
  then obtain es where "validate_item it index = Inr es"
    by (simp add: validate_item_def)
  with Cons show ?case by simp
qed

text \<open>Without an element \<open>undefined\<close> or \<open>null\<close> in \<open>items\<close> the checks end without an exception.\<close>

lemma validate_total:
  assumes "\<forall>it \<in> set (elements_of (property p ''items'')). \<not> nullish it"
  shows "\<exists>es. validate p = Inr es"
  using validate_items_total [OF assms] by (simp add: validate_def Let_def)

text \<open>
  A call that ends at one of the first two returns has written no cookie and has left the
  container and the body as they were.
\<close>

lemma validation_failure_no_effects:
  assumes "container b = None \<or> (\<exists>es. validate p = Inr es \<and> es \<noteq> [])"
  shows "(fst (oneAccountSales e p b) = NoContainer \<or> fst (oneAccountSales e p b) = Invalid)
         \<and> container (snd (oneAccountSales e p b)) = container b
         \<and> body_appended (snd (oneAccountSales e p b)) = body_appended b
         \<and> cookie_writes (snd (oneAccountSales e p b)) = cookie_writes b"
  using assms by (auto simp add: oneAccountSales_def)

section \<open>Properties of the click identifier\<close>

lemma valid_param_iff:
  "valid_param s \<longleftrightarrow> list_all allowed_char s \<and> 92 \<le> length s \<and> length s \<le> 500"
  by (auto simp add: valid_param_def matches_pattern_def)

lemma space_not_allowed: "\<not> allowed_char (CHR '' '')"
  by (simp add: allowed_char_def)

lemma allowed_a: "allowed_char (CHR ''a'')"
  by (simp add: allowed_char_def)

lemma token92_length: "length token92 = 92"
  by (simp add: token92_def)

lemma token92_valid: "valid_param token92"
  unfolding valid_param_iff token92_length
  by (simp add: token92_def list_all_iff allowed_a)

lemma short_invalid: "\<not> valid_param (replicate 91 (CHR ''a''))"
  unfolding valid_param_iff by (simp)

lemma long_invalid: "\<not> valid_param (replicate 501 (CHR ''a''))"
  unfolding valid_param_iff by (simp)

lemma space_invalid: "\<not> valid_param (replicate 91 (CHR ''a'') @ '' '')"
  unfolding valid_param_iff by (simp add: space_not_allowed)

lemma redirect_param_invalid: "\<not> valid_param ''click-1700000000000-k3j9x0a1b''"
  by (simp add: valid_param_def)

lemma cookie_redirect:
  "CookieUtil_get cv_redirect_env ''_oneAccount_s00000000000001'' = Some ''click-1''"
  by (simp add: cv_redirect_env_def cv_env_def cookie_get_defs)

text \<open>Without the parameter in the URL, or with an empty one, the per-program cookie is read.\<close>

lemma absent_param_reads_cookie:
  assumes "oneAccountParam e = None \<or> oneAccountParam e = Some []"
  shows "fst (resolve_click_id e pd b) = CookieUtil_get e (''_oneAccount_'' @ pd)"
  using assms by (auto simp add: resolve_click_id_def Let_def)

section \<open>Root-domain resolution\<close>

text \<open>
  C6. For a hostname that is \<open>localhost\<close> or an IPv4 dotted quad, root-domain resolution
  returns the hostname unchanged; otherwise the hostname is split on the dot, and the last
  three labels are joined when the second-to-last label is in the fixed set, the last two
  otherwise. \<open>shop.example.co.jp\<close> resolves to \<open>example.co.jp\<close> and \<open>www.example.com\<close>
  to \<open>example.com\<close>.
\<close>

theorem C6_getRootDomain_spec:
  "getRootDomain h = resolveRootDomain_spec h
   \<and> (local_or_ip h \<longrightarrow> getRootDomain h = h)
   \<and> getRootDomain ''shop.example.co.jp'' = ''example.co.jp''
   \<and> getRootDomain ''www.example.com'' = ''example.com''"
proof -
  have short: "join_with ''.'' (slice_last n (split_on (CHR ''.'') h)) = h"
    if "length (split_on (CHR ''.'') h) \<le> 2" and "2 \<le> n" for n
    using that join_split_on [of "CHR ''.''" h] by (simp add: slice_last_all)
  have "getRootDomain h = resolveRootDomain_spec h"
    unfolding getRootDomain_def resolveRootDomain_spec_def second_to_last_known_def Let_def
    using short [of 2] short [of 3] by auto
  moreover have "local_or_ip h \<longrightarrow> getRootDomain h = h"
    by (simp add: getRootDomain_def)
  moreover have "getRootDomain ''shop.example.co.jp'' = ''example.co.jp''"
    by (simp add: getRootDomain_def local_or_ip_def slds_def slice_last_def
        digit_group_def is_digit_def)
  moreover have "getRootDomain ''www.example.com'' = ''example.com''"
    by (simp add: getRootDomain_def local_or_ip_def slds_def slice_last_def
        digit_group_def is_digit_def)
  ultimately show ?thesis by blast
qed

theorem C6_getRootDomain_witness:
  "local_or_ip ''192.168.0.1'' \<and> getRootDomain ''192.168.0.1'' = ''192.168.0.1''
   \<and> getRootDomain ''localhost'' = ''localhost''
   \<and> getRootDomain ''a.b.example.or.jp'' = resolveRootDomain_spec ''a.b.example.or.jp''
   \<and> resolveRootDomain_spec ''a.b.example.or.jp'' = ''example.or.jp''"
proof -
  have ip: "local_or_ip ''192.168.0.1''"
    by (simp add: local_or_ip_def digit_group_def is_digit_def)
  have lh: "local_or_ip ''localhost''"
    by (simp add: local_or_ip_def)
  have sp: "resolveRootDomain_spec ''a.b.example.or.jp'' = ''example.or.jp''"
    by (simp add: resolveRootDomain_spec_def second_to_last_known_def local_or_ip_def
        slds_def slice_last_def digit_group_def is_digit_def)
  have a: "getRootDomain ''192.168.0.1'' = ''192.168.0.1''"
    using C6_getRootDomain_spec [of "''192.168.0.1''"] ip by blast
  have b: "getRootDomain ''localhost'' = ''localhost''"
    using C6_getRootDomain_spec [of "''localhost''"] lh by blast
  have c: "getRootDomain ''a.b.example.or.jp'' = resolveRootDomain_spec ''a.b.example.or.jp''"
    using C6_getRootDomain_spec [of "''a.b.example.or.jp''"] by blast
  from ip a b c sp show ?thesis by blast
qed

section \<open>The total price and the final amount\<close>

text \<open>
  C5. When the payload's \<open>total_price\<close> is not a number, the normalised total price is the sum
  over the normalised items of price times quantity, and under the normalised currency
  \<open>JPY\<close> the largest integer not above that sum.
\<close>

theorem C5_total_price_computed:
  assumes "typeof (property p ''total_price'') \<noteq> TNumber"
  shows "total_price (normalize_data e p) =
           (if currency (normalize_data e p) = ''JPY''
            then floored (sum_of_products (items (normalize_data e p)))
            else sum_of_products (items (normalize_data e p)))"
  using assms
  by (simp add: normalize_data_def normalize_total_price_def Let_def reduce_total_sum
      js_floor_floored)

lemma items_2500:
  "items (normalize_data e payload_2500) =
     [\<lparr>code = ''oneAccount'', price = Fin 1000, quantity = Fin 2\<rparr>,
      \<lparr>code = ''oneAccount'', price = Fin 500, quantity = Fin 1\<rparr>]"
  by (simp add: payload_2500_def normalize_defs)

lemma currency_2500: "currency (normalize_data e payload_2500) = ''JPY''"
  by (simp add: payload_2500_def normalize_defs)

lemma one_item_total_price:
  "typeof (property (one_item_payload a b cur) ''total_price'') \<noteq> TNumber"
  by (simp add: one_item_payload_def)

lemma one_item_items:
  assumes "a \<noteq> 0" and "of_int \<lfloor>b\<rfloor> = b" and "0 < b" and "b \<le> 9999"
  shows "items (normalize_data e (one_item_payload a b cur)) =
           [\<lparr>code = ''oneAccount'', price = Fin a, quantity = Fin b\<rparr>]"
  using assms by (simp add: one_item_payload_def normalize_defs)

lemma one_item_currency:
  "currency (normalize_data e (one_item_payload a b ''JPY'')) = ''JPY''"
  "currency (normalize_data e (one_item_payload a b ''AUD'')) = ''AUD''"
  by (simp_all add: one_item_payload_def normalize_defs)

lemma double_999_9_floor: "\<lfloor>double_999_9\<rfloor> = 999"
  by (simp add: double_999_9_def)

lemma double_999_9_round: "round_double double_999_9 = Fin double_999_9"
  by (simp add: double_999_9_def round_double_eval)

lemma items_tenths:
  "items (normalize_data e payload_tenths) =
     [\<lparr>code = ''oneAccount'', price = Fin double_0_1, quantity = Fin 1\<rparr>,
      \<lparr>code = ''oneAccount'', price = Fin double_0_2, quantity = Fin 1\<rparr>]"
proof -
  have "double_0_1 \<noteq> 0" and "double_0_2 \<noteq> 0"
    by (simp_all add: double_0_1_def double_0_2_def)
  then show ?thesis
    by (simp add: payload_tenths_def normalize_defs)
qed

lemma currency_tenths: "currency (normalize_data e payload_tenths) = ''AUD''"
  by (simp add: payload_tenths_def normalize_defs)

text \<open>
  The specification's example, the items 1000 times 2 and 500 times 1 in \<open>JPY\<close>, gives 2500.
  One item of price \<open>0.7\<close> and quantity 10 in \<open>JPY\<close> gives 7, the product of the doubles. One
  item of price \<open>999.9\<close> and quantity 1 gives 999 in \<open>JPY\<close> and \<open>999.9\<close> in \<open>AUD\<close>. The prices
  \<open>0.1\<close> and \<open>0.2\<close> in \<open>AUD\<close> give \<open>0.30000000000000004\<close>.
\<close>

theorem C5_total_price_witness:
  "typeof (property payload_2500 ''total_price'') \<noteq> TNumber
   \<and> total_price (normalize_data cv_env payload_2500) = Fin 2500
   \<and> total_price (normalize_data cv_env (one_item_payload double_0_7 10 ''JPY'')) = Fin 7
   \<and> total_price (normalize_data cv_env (one_item_payload double_999_9 1 ''JPY'')) = Fin 999
   \<and> total_price (normalize_data cv_env (one_item_payload double_999_9 1 ''AUD''))
       = Fin double_999_9
   \<and> total_price (normalize_data cv_env payload_tenths) = Fin double_0_3_above"
proof -
  have h: "typeof (property payload_2500 ''total_price'') \<noteq> TNumber"
    by (simp add: payload_2500_def)
  have 1: "total_price (normalize_data cv_env payload_2500) = Fin 2500"
    using C5_total_price_computed [OF h, of cv_env]
    by (simp add: items_2500 currency_2500 sum_of_products_def floored_def round_double_int)
  have n7: "double_0_7 \<noteq> 0" and n9: "double_999_9 \<noteq> 0"
    by (simp_all add: double_0_7_def double_999_9_def)
  have 2: "total_price (normalize_data cv_env (one_item_payload double_0_7 10 ''JPY'')) = Fin 7"
    using C5_total_price_computed [OF one_item_total_price, of cv_env double_0_7 10 "''JPY''"]
    by (simp add: one_item_items [OF n7] one_item_currency sum_of_products_def
        round_0_7_by_10 floored_def round_double_int)
  have 3: "total_price (normalize_data cv_env (one_item_payload double_999_9 1 ''JPY'')) = Fin 999"
    using C5_total_price_computed [OF one_item_total_price, of cv_env double_999_9 1 "''JPY''"]
    by (simp add: one_item_items [OF n9] one_item_currency sum_of_products_def
        double_999_9_round floored_def double_999_9_floor)
  have 4: "total_price (normalize_data cv_env (one_item_payload double_999_9 1 ''AUD''))
       = Fin double_999_9"
    using C5_total_price_computed [OF one_item_total_price, of cv_env double_999_9 1 "''AUD''"]
    by (simp add: one_item_items [OF n9] one_item_currency sum_of_products_def
        double_999_9_round)
  have t: "typeof (property payload_tenths ''total_price'') \<noteq> TNumber"
    by (simp add: payload_tenths_def)
  have 5: "total_price (normalize_data cv_env payload_tenths) = Fin double_0_3_above"
    using C5_total_price_computed [OF t, of cv_env]
    by (simp add: items_tenths currency_tenths sum_of_products_def round_0_1 round_0_2
        round_0_1_plus_0_2)
  from h 1 2 3 4 5 show ?thesis by blast
qed

text \<open>
  C4. The final amount is the normalised total price, unless \<open>amount_priority\<close> is the string
  \<open>total_price\<close> and the caller's payload has a numeric \<open>total_price\<close>: then it is that value
  itself. With \<open>amount_priority\<close> \<open>total_price\<close>, \<open>total_price\<close> 999.9 and currency \<open>JPY\<close> it
  is 999.9.
\<close>

theorem C4_final_amount:
  "(if property p ''amount_priority'' = Str ''total_price''
       \<and> typeof (property p ''total_price'') = TNumber
    then Num (finalAmount (normalize_data e p) p) = property p ''total_price''
    else finalAmount (normalize_data e p) p = total_price (normalize_data e p))
   \<and> finalAmount (normalize_data e payload_priority) payload_priority = Fin (9999 / 10)"
proof -
  have "finalAmount (normalize_data e payload_priority) payload_priority = Fin (9999 / 10)"
    by (simp add: finalAmount_def payload_priority_def normalize_data_def Let_def)
  then show ?thesis
    by (simp add: finalAmount_def normalize_data_def Let_def number_of_Num)
qed

text \<open>
  The two cases on concrete payloads: the amount 999.9 is reported as it is, and without
  \<open>amount_priority\<close> the computed total 2500 is reported.
\<close>

theorem C4_final_amount_witness:
  "Num (finalAmount (normalize_data cv_env payload_priority) payload_priority) = Num (Fin (9999 / 10))
   \<and> finalAmount (normalize_data cv_env payload_2500) payload_2500 = Fin 2500"
proof -
  have a: "Num (finalAmount (normalize_data cv_env payload_priority) payload_priority)
             = property payload_priority ''total_price''"
    using C4_final_amount [of payload_priority cv_env] by (simp add: payload_priority_def)
  have b: "finalAmount (normalize_data cv_env payload_2500) payload_2500
             = total_price (normalize_data cv_env payload_2500)"
    using C4_final_amount [of payload_2500 cv_env] by (simp add: payload_2500_def)
  have c: "total_price (normalize_data cv_env payload_2500) = Fin 2500"
    by (simp add: payload_2500_def normalize_defs round_double_int)
  from a b c show ?thesis by (simp add: payload_priority_def)
qed

section \<open>The cookies after a call\<close>

text \<open>
  C7. A call that reaches the end has assigned to \<open>document.cookie\<close>, after what phase 2
  wrote, the deletion of the per-program cookie exactly when \<open>repeat\<close> is not \<open>true\<close>, and
  then the deletion of the relay cookie in every case. With \<open>repeat\<close> \<open>true\<close> no assignment of
  the call deletes the per-program cookie.
\<close>

theorem C7_cleanup_cookies:
  assumes "oneAccountSales e p b = (Completed, b')"
  shows "cookie_writes b' =
           cookie_writes (snd (resolve_click_id e (string_of (property p ''pid'')) b)) @
           (if property p ''repeat'' \<noteq> Bool True
            then [DeleteCookie (''_oneAccount_'' @ string_of (property p ''pid''))
                    (domain_attribute (getRootDomain (location_hostname e)))]
            else []) @
           [DeleteCookie ''ONEACCOUNT_DELIVERY''
              (domain_attribute (getRootDomain (location_hostname e)))]
         \<and> (property p ''repeat'' = Bool True \<longrightarrow>
              (\<forall>dom. DeleteCookie (''_oneAccount_'' @ string_of (property p ''pid'')) dom
                 \<notin> set (drop (length (cookie_writes b)) (cookie_writes b'))))"
proof -
  from assms have "fst (oneAccountSales e p b) = Completed" by simp
  from oneAccountSales_completedD [OF this] obtain imgs v b2 where
    h: "container b = Some imgs" "validate p = Inr []"
       "resolve_click_id e (string_of (property p ''pid'')) b = (Some v, b2)" "v \<noteq> []"
    by blast
  have rp: "repeat (normalize_data e p) = property p ''repeat''"
    and pd: "pid (normalize_data e p) = string_of (property p ''pid'')"
    by (simp_all add: normalize_data_def Let_def)
  from assms oneAccountSales_completed [OF h] have
    "b' = cleanup e (normalize_data e p)
              (asp_postback e (normalize_data e p) v (finalAmount (normalize_data e p) p)
                 (if imgs = [] then b2\<lparr>container := Some [created_img]\<rparr> else b2))"
    by simp
  then have w: "cookie_writes b' =
           cookie_writes (snd (resolve_click_id e (string_of (property p ''pid'')) b)) @
           (if property p ''repeat'' \<noteq> Bool True
            then [DeleteCookie (''_oneAccount_'' @ string_of (property p ''pid''))
                    (domain_attribute (getRootDomain (location_hostname e)))]
            else []) @
           [DeleteCookie ''ONEACCOUNT_DELIVERY''
              (domain_attribute (getRootDomain (location_hostname e)))]"
    using h(3) by (simp add: cleanup_writes asp_postback_fields rp pd)
  have "\<forall>dom. DeleteCookie (''_oneAccount_'' @ string_of (property p ''pid'')) dom
           \<notin> set (drop (length (cookie_writes b)) (cookie_writes b'))"
    if "property p ''repeat'' = Bool True"
    using that unfolding w resolve_click_id_writes
    by (auto split: option.splits)
  with w show ?thesis by blast
qed

text \<open>
  The README's call deletes both cookies; the same call with \<open>repeat: true\<close> deletes the relay
  cookie only.
\<close>

theorem C7_cleanup_cookies_witness:
  "fst (oneAccountSales cv_env cv_payload cv_page) = Completed
   \<and> cookie_writes (snd (oneAccountSales cv_env cv_payload cv_page))
       = [DeleteCookie ''_oneAccount_s00000000000001'' (Some ''another-site.local''),
          DeleteCookie ''ONEACCOUNT_DELIVERY'' (Some ''another-site.local'')]
   \<and> fst (oneAccountSales cv_env payload_repeat cv_page) = Completed
   \<and> cookie_writes (snd (oneAccountSales cv_env payload_repeat cv_page))
       = [DeleteCookie ''ONEACCOUNT_DELIVERY'' (Some ''another-site.local'')]"
proof -
  have c: "container cv_page = Some []" by (simp add: cv_page_def)
  have r: "resolve_click_id cv_env (string_of (property payload_repeat ''pid'')) cv_page =
     (Some ''click-1'', cv_page\<lparr>console := [ConsoleLog (Received None 0)]\<rparr>)"
    using resolve_cv by (simp add: payload_repeat_def)
  have f1: "fst (oneAccountSales cv_env cv_payload cv_page) = Completed"
    by (simp add: run_cv)
  have f2: "fst (oneAccountSales cv_env payload_repeat cv_page) = Completed"
    using oneAccountSales_completed [OF c validate_repeat r] by simp
  have w1: "cookie_writes (snd (oneAccountSales cv_env cv_payload cv_page))
       = [DeleteCookie ''_oneAccount_s00000000000001'' (Some ''another-site.local''),
          DeleteCookie ''ONEACCOUNT_DELIVERY'' (Some ''another-site.local'')]"
    using C7_cleanup_cookies [of cv_env cv_payload cv_page
        "snd (oneAccountSales cv_env cv_payload cv_page)"] f1
    by (simp add: prod_eq_iff host_cv resolve_click_id_writes)
       (simp add: cv_payload_def cv_env_def cv_page_def)
  have w2: "cookie_writes (snd (oneAccountSales cv_env payload_repeat cv_page))
       = [DeleteCookie ''ONEACCOUNT_DELIVERY'' (Some ''another-site.local'')]"
    using C7_cleanup_cookies [of cv_env payload_repeat cv_page
        "snd (oneAccountSales cv_env payload_repeat cv_page)"] f2
    by (simp add: prod_eq_iff host_cv resolve_click_id_writes)
       (simp add: payload_repeat_def cv_env_def cv_page_def)
  from f1 w1 f2 w2 show ?thesis by blast
qed

section \<open>Rewriting an anchor\<close>

text \<open>
  An anchor with a non-empty \<open>href\<close>, a \<open>hostname\<close> other than the page's and no occurrence of
  the text \<open>oneAccount=\<close> in its \<open>href\<close> is rewritten: the part before the first \<open>#\<close>, then
  \<open>?oneAccount=value\<close> when that part has no \<open>?\<close> and \<open>&oneAccount=value\<close> when it has one,
  then the fragment from the \<open>#\<close> on.
\<close>

lemma updateAnchorHref_rewrite:
  assumes "href a \<noteq> []"
    and "hostname a \<noteq> location_hostname e"
    and "\<not> js_includes (href a) ''oneAccount=''"
  shows "href (fst (updateAnchorHref e a v b)) =
           (let before = takeWhile (\<lambda>c. c \<noteq> CHR ''#'') (href a);
                fragment = dropWhile (\<lambda>c. c \<noteq> CHR ''#'') (href a)
            in before @ (if CHR ''?'' \<in> set before then ''&'' else ''?'')
                 @ ''oneAccount='' @ v @ fragment)"
proof (cases "indexOf (href a) (CHR ''#'')")
  case None
  have tw: "takeWhile (\<lambda>c. c \<noteq> CHR ''#'') (href a) = href a"
    and dw: "dropWhile (\<lambda>c. c \<noteq> CHR ''#'') (href a) = []"
    using indexOf_None [OF None] by blast+
  from assms None show ?thesis
    unfolding tw dw by (simp add: updateAnchorHref_def PARAM_KEY_def js_includes_single Let_def)
next
  case (Some i)
  have tw: "takeWhile (\<lambda>c. c \<noteq> CHR ''#'') (href a) = take i (href a)"
    and dw: "dropWhile (\<lambda>c. c \<noteq> CHR ''#'') (href a) = drop i (href a)"
    using indexOf_Some [OF Some] by simp_all
  from assms Some show ?thesis
    unfolding tw dw by (simp add: updateAnchorHref_def PARAM_KEY_def js_includes_single Let_def)
qed

text \<open>Two links of the landing page: with a query and a fragment, and with neither.\<close>

lemma updateAnchorHref_links:
  "href (fst (updateAnchorHref landing_env
      \<lparr>href = ''http://another-site.local:8080/cv.html?x=1#top'',
       hostname = ''another-site.local''\<rparr> ''abc'' cv_page))
   = ''http://another-site.local:8080/cv.html?x=1&oneAccount=abc#top''
   \<and> href (fst (updateAnchorHref landing_env
      \<lparr>href = ''http://another-site.local:8080/cv.html'',
       hostname = ''another-site.local''\<rparr> ''abc'' cv_page))
   = ''http://another-site.local:8080/cv.html?oneAccount=abc''"
proof -
  have 1: "href (fst (updateAnchorHref landing_env
      \<lparr>href = ''http://another-site.local:8080/cv.html?x=1#top'',
       hostname = ''another-site.local''\<rparr> ''abc'' cv_page))
   = ''http://another-site.local:8080/cv.html?x=1&oneAccount=abc#top''"
    using updateAnchorHref_rewrite [of
      "\<lparr>href = ''http://another-site.local:8080/cv.html?x=1#top'',
        hostname = ''another-site.local''\<rparr>" landing_env "''abc''" cv_page]
    by (simp add: landing_env_def)
  have 2: "href (fst (updateAnchorHref landing_env
      \<lparr>href = ''http://another-site.local:8080/cv.html'',
       hostname = ''another-site.local''\<rparr> ''abc'' cv_page))
   = ''http://another-site.local:8080/cv.html?oneAccount=abc''"
    using updateAnchorHref_rewrite [of
      "\<lparr>href = ''http://another-site.local:8080/cv.html'',
        hostname = ''another-site.local''\<rparr>" landing_env "''abc''" cv_page]
    by (simp add: landing_env_def)
  from 1 2 show ?thesis by blast
qed

text \<open>An anchor without a link is left as it is, at the first guard of the function.\<close>

lemma updateAnchorHref_no_href:
  "updateAnchorHref landing_env \<lparr>href = [], hostname = []\<rparr> ''abc'' cv_page
     = (\<lparr>href = [], hostname = []\<rparr>, cv_page)"
  by (simp add: updateAnchorHref_def landing_env_def)

text \<open>
  C8 says that every anchor to another host whose link does not already carry the tracking
  parameter gets the parameter appended, after \<open>?\<close> or \<open>&\<close> and before the fragment. The source
  looks for the text \<open>oneAccount=\<close> anywhere in the link instead: the link below goes to the
  other site, its only parameter is \<open>notoneAccount\<close>, and the function leaves it as it is,
  where the claim gives it \<open>&oneAccount=abc\<close>.
\<close>

theorem C8_similar_name_not_rewritten:
  "href similar_name_anchor \<noteq> []
   \<and> hostname similar_name_anchor \<noteq> location_hostname landing_env
   \<and> query_names (href similar_name_anchor) = [''notoneAccount'']
   \<and> \<not> carries_parameter (href similar_name_anchor) PARAM_KEY
   \<and> js_includes (href similar_name_anchor) (PARAM_KEY @ ''='')
   \<and> updateAnchorHref landing_env similar_name_anchor ''abc'' cv_page
       = (similar_name_anchor, cv_page)
   \<and> href (fst (updateAnchorHref landing_env similar_name_anchor ''abc'' cv_page))
       \<noteq> ''http://another-site.local:8080/cv.html?notoneAccount=1&oneAccount=abc''"
proof -
  have q: "query_names (href similar_name_anchor) = [''notoneAccount'']"
    by (simp add: similar_name_anchor_def query_names_def)
  have i: "js_includes (href similar_name_anchor) (PARAM_KEY @ ''='')"
    by (simp add: similar_name_anchor_def PARAM_KEY_def)
  have u: "updateAnchorHref landing_env similar_name_anchor ''abc'' cv_page
       = (similar_name_anchor, cv_page)"
    using i by (simp add: updateAnchorHref_def) 
  have h: "href similar_name_anchor \<noteq> []"
    "hostname similar_name_anchor \<noteq> location_hostname landing_env"
    "href similar_name_anchor
       \<noteq> ''http://another-site.local:8080/cv.html?notoneAccount=1&oneAccount=abc''"
    by (simp_all add: similar_name_anchor_def landing_env_def)
  from q have c: "\<not> carries_parameter (href similar_name_anchor) PARAM_KEY"
    by (simp add: carries_parameter_def PARAM_KEY_def)
  from h q c i u show ?thesis by simp
qed

section \<open>The click identifier from the URL\<close>

text \<open>
  C3. When the page URL carries the parameter \<open>oneAccount\<close>, the reporter takes it as the click
  identifier and stores it in the per-program cookie, with an expiry 3653 days ahead and the
  root domain, if and only if it matches \<^verbatim>\<open>^[A-Za-z0-9\-_.]+$\<close> and its length is between
  92 and 500. A value of length 91 or 501, or one with a space, is rejected and nothing is
  stored; every value of 92 to 500 allowed characters is accepted.
\<close>

theorem C3_url_param_accepted_iff:
  assumes "oneAccountParam e = Some s"
  shows "(valid_param s \<longleftrightarrow>
            fst (resolve_click_id e pd b) = Some s
            \<and> cookie_writes (snd (resolve_click_id e pd b)) =
                cookie_writes b @
                  [SetCookie (''_oneAccount_'' @ pd) s (date_now e + 3653 * 24 * 60 * 60 * 1000)
                     (domain_attribute (getRootDomain (location_hostname e)))])
         \<and> (\<not> valid_param s \<longrightarrow>
               cookie_writes (snd (resolve_click_id e pd b)) = cookie_writes b
               \<and> (s \<noteq> [] \<longrightarrow> fst (resolve_click_id e pd b) = None))
         \<and> (valid_param s \<longleftrightarrow> matches_pattern s \<and> 92 \<le> length s \<and> length s \<le> 500)
         \<and> (length s = 91 \<or> length s = 501 \<or> CHR '' '' \<in> set s \<longrightarrow> \<not> valid_param s)
         \<and> (list_all allowed_char s \<and> 92 \<le> length s \<and> length s \<le> 500 \<longrightarrow> valid_param s)"
proof -
  have w: "cookie_writes (snd (resolve_click_id e pd b)) =
             cookie_writes b @
               (if valid_param s
                then [SetCookie (''_oneAccount_'' @ pd) s (date_now e + 3653 * 24 * 60 * 60 * 1000)
                        (domain_attribute (getRootDomain (location_hostname e)))]
                else [])"
    using assms by (simp add: resolve_click_id_writes)
  have f: "valid_param s \<Longrightarrow> fst (resolve_click_id e pd b) = Some s"
    using assms by (auto simp add: resolve_click_id_def Let_def valid_param_def matches_pattern_def)
  have g: "\<not> valid_param s \<Longrightarrow> s \<noteq> [] \<Longrightarrow> fst (resolve_click_id e pd b) = None"
    using assms by (simp add: resolve_click_id_def Let_def)
  have sp: "CHR '' '' \<in> set s \<Longrightarrow> \<not> valid_param s"
    using space_not_allowed by (auto simp add: valid_param_iff list_all_iff)
  have 1: "valid_param s \<longleftrightarrow>
            fst (resolve_click_id e pd b) = Some s
            \<and> cookie_writes (snd (resolve_click_id e pd b)) =
                cookie_writes b @
                  [SetCookie (''_oneAccount_'' @ pd) s (date_now e + 3653 * 24 * 60 * 60 * 1000)
                     (domain_attribute (getRootDomain (location_hostname e)))]"
    using w f by auto
  have 2: "\<not> valid_param s \<longrightarrow>
               cookie_writes (snd (resolve_click_id e pd b)) = cookie_writes b
               \<and> (s \<noteq> [] \<longrightarrow> fst (resolve_click_id e pd b) = None)"
    using w g by simp
  have 3: "valid_param s \<longleftrightarrow> matches_pattern s \<and> 92 \<le> length s \<and> length s \<le> 500"
    by (simp add: valid_param_def)
  have 4: "length s = 91 \<or> length s = 501 \<or> CHR '' '' \<in> set s \<longrightarrow> \<not> valid_param s"
    using sp by (auto simp add: valid_param_iff)
  have 5: "list_all allowed_char s \<and> 92 \<le> length s \<and> length s \<le> 500 \<longrightarrow> valid_param s"
    by (simp add: valid_param_iff)
  from 1 2 3 4 5 show ?thesis by blast
qed

text \<open>A value of 92 characters is taken and stored; one of 91 characters is not.\<close>

theorem C3_url_param_witness:
  "oneAccountParam (cv_env\<lparr>oneAccountParam := Some token92\<rparr>) = Some token92
   \<and> length token92 = 92
   \<and> fst (resolve_click_id (cv_env\<lparr>oneAccountParam := Some token92\<rparr>) ''s00000000000001'' cv_page)
       = Some token92
   \<and> cookie_writes (snd (resolve_click_id (cv_env\<lparr>oneAccountParam := Some token92\<rparr>)
         ''s00000000000001'' cv_page))
       = [SetCookie ''_oneAccount_s00000000000001'' token92 2015619200000
            (Some ''another-site.local'')]
   \<and> \<not> valid_param (replicate 91 (CHR ''a''))
   \<and> \<not> valid_param (replicate 501 (CHR ''a''))
   \<and> \<not> valid_param (replicate 91 (CHR ''a'') @ '' '')
   \<and> cookie_writes (snd (resolve_click_id
         (cv_env\<lparr>oneAccountParam := Some (replicate 91 (CHR ''a''))\<rparr>)
         ''s00000000000001'' cv_page)) = []"
proof -
  let ?e = "cv_env\<lparr>oneAccountParam := Some token92\<rparr>"
  let ?e91 = "cv_env\<lparr>oneAccountParam := Some (replicate 91 (CHR ''a''))\<rparr>"
  have p: "oneAccountParam ?e = Some token92" by simp
  have h: "domain_attribute (getRootDomain (location_hostname ?e)) = Some ''another-site.local''"
    using host_cv by (simp add: cv_env_def)
  have d: "date_now ?e + 3653 * 24 * 60 * 60 * 1000 = 2015619200000"
    by (simp add: cv_env_def)
  have w0: "cookie_writes cv_page = []" by (simp add: cv_page_def)
  from C3_url_param_accepted_iff [OF p, of "''s00000000000001''" cv_page] token92_valid
  have a: "fst (resolve_click_id ?e ''s00000000000001'' cv_page) = Some token92"
    and ws: "cookie_writes (snd (resolve_click_id ?e ''s00000000000001'' cv_page)) =
               [SetCookie ''_oneAccount_s00000000000001'' token92 2015619200000
                  (Some ''another-site.local'')]"
    unfolding h d w0 by simp_all
  have p91: "oneAccountParam ?e91 = Some (replicate 91 (CHR ''a''))" by simp
  from C3_url_param_accepted_iff [OF p91, of "''s00000000000001''" cv_page] short_invalid
  have w91: "cookie_writes (snd (resolve_click_id ?e91 ''s00000000000001'' cv_page)) = []"
    unfolding w0 by blast
  from p token92_length a ws short_invalid long_invalid space_invalid w91 show ?thesis
    by blast
qed

text \<open>
  C2, amended. When the page URL carries a non-empty parameter \<open>oneAccount\<close> that fails the
  pattern or the length bounds, the parameter is rejected with an error on the console
  (unless the console is switched off) and the per-program cookie is not read: the call of
  a valid payload ends without a click identifier, with a second error, and has appended no
  image and assigned no cookie, whatever the cookie holds. Only an absent or empty
  parameter makes the reporter read the per-program cookie.
\<close>

theorem C2_rejected_param_aborts:
  assumes "oneAccountParam e = Some s"
    and "container b \<noteq> None"
    and "validate p = Inr []"
  shows "(s \<noteq> [] \<and> \<not> valid_param s \<longrightarrow>
            fst (oneAccountSales e p b) = NoClickId
            \<and> container (snd (oneAccountSales e p b)) = container b
            \<and> body_appended (snd (oneAccountSales e p b)) = body_appended b
            \<and> cookie_writes (snd (oneAccountSales e p b)) = cookie_writes b
            \<and> console (snd (oneAccountSales e p b)) =
                console b @ [ConsoleLog (Received (Some s) (length s))] @
                (if stopLog e then []
                 else [ConsoleError UrlParamInvalid, ConsoleError ClickIdMissing]))
         \<and> (s = [] \<longrightarrow>
               fst (resolve_click_id e (string_of (property p ''pid'')) b) =
                 CookieUtil_get e (''_oneAccount_'' @ string_of (property p ''pid'')))"
proof -
  have r: "resolve_click_id e (string_of (property p ''pid'')) b =
             (None, logger_error e UrlParamInvalid
                      (b\<lparr>console := console b @ [ConsoleLog (Received (Some s) (length s))]\<rparr>))"
    if "s \<noteq> []" "\<not> valid_param s"
    using that assms(1) by (simp add: resolve_click_id_def Let_def)
  have run: "oneAccountSales e p b =
               (NoClickId,
                logger_error e ClickIdMissing
                  (logger_error e UrlParamInvalid
                     (b\<lparr>console := console b @ [ConsoleLog (Received (Some s) (length s))]\<rparr>)))"
    if "s \<noteq> []" "\<not> valid_param s"
    using assms(2,3) r [OF that] by (simp add: oneAccountSales_def)
  have 1: "s \<noteq> [] \<and> \<not> valid_param s \<longrightarrow>
            fst (oneAccountSales e p b) = NoClickId
            \<and> container (snd (oneAccountSales e p b)) = container b
            \<and> body_appended (snd (oneAccountSales e p b)) = body_appended b
            \<and> cookie_writes (snd (oneAccountSales e p b)) = cookie_writes b
            \<and> console (snd (oneAccountSales e p b)) =
                console b @ [ConsoleLog (Received (Some s) (length s))] @
                (if stopLog e then []
                 else [ConsoleError UrlParamInvalid, ConsoleError ClickIdMissing])"
    using run by (simp add: logger_error_def)
  have 2: "s = [] \<longrightarrow>
               fst (resolve_click_id e (string_of (property p ''pid'')) b) =
                 CookieUtil_get e (''_oneAccount_'' @ string_of (property p ''pid''))"
    using assms(1) by (simp add: resolve_click_id_def Let_def)
  from 1 2 show ?thesis by blast
qed

text \<open>The README's page, reached with the short parameter of its redirect page.\<close>

theorem C2_rejected_param_witness:
  "oneAccountParam cv_redirect_env = Some ''click-1700000000000-k3j9x0a1b''
   \<and> container cv_page \<noteq> None
   \<and> validate cv_payload = Inr []
   \<and> \<not> valid_param ''click-1700000000000-k3j9x0a1b''
   \<and> fst (oneAccountSales cv_redirect_env cv_payload cv_page) = NoClickId
   \<and> cookie_writes (snd (oneAccountSales cv_redirect_env cv_payload cv_page)) = []
   \<and> body_appended (snd (oneAccountSales cv_redirect_env cv_payload cv_page)) = []
   \<and> console (snd (oneAccountSales cv_redirect_env cv_payload cv_page)) =
       [ConsoleLog (Received (Some ''click-1700000000000-k3j9x0a1b'') 29),
        ConsoleError UrlParamInvalid, ConsoleError ClickIdMissing]"
proof -
  have p: "oneAccountParam cv_redirect_env = Some ''click-1700000000000-k3j9x0a1b''"
    by (simp add: cv_redirect_env_def)
  have c: "container cv_page \<noteq> None" by (simp add: cv_page_def)
  have s: "\<not> stopLog cv_redirect_env" by (simp add: cv_redirect_env_def cv_env_def)
  from C2_rejected_param_aborts [OF p c validate_cv] redirect_param_invalid s
  have "fst (oneAccountSales cv_redirect_env cv_payload cv_page) = NoClickId"
    and "cookie_writes (snd (oneAccountSales cv_redirect_env cv_payload cv_page)) = []"
    and "body_appended (snd (oneAccountSales cv_redirect_env cv_payload cv_page)) = []"
    and "console (snd (oneAccountSales cv_redirect_env cv_payload cv_page)) =
       [ConsoleLog (Received (Some ''click-1700000000000-k3j9x0a1b'') 29),
        ConsoleError UrlParamInvalid, ConsoleError ClickIdMissing]"
    by (simp_all add: cv_page_def)
  with p c validate_cv redirect_param_invalid show ?thesis by blast
qed

text \<open>
  C2 as stated fails there: the parameter is rejected, the per-program cookie holds the
  value \<open>click-1\<close>, and the call ends without a click identifier instead of reporting with
  the cookie's value.
\<close>

theorem C2_cookie_not_read_counterexample:
  "oneAccountParam cv_redirect_env = Some ''click-1700000000000-k3j9x0a1b''
   \<and> \<not> valid_param ''click-1700000000000-k3j9x0a1b''
   \<and> CookieUtil_get cv_redirect_env ''_oneAccount_s00000000000001'' = Some ''click-1''
   \<and> validate cv_payload = Inr []
   \<and> oneAccountSales cv_redirect_env cv_payload cv_page =
       (NoClickId,
        cv_page\<lparr>console :=
          [ConsoleLog (Received (Some ''click-1700000000000-k3j9x0a1b'') 29),
           ConsoleError UrlParamInvalid, ConsoleError ClickIdMissing]\<rparr>)
   \<and> fst (oneAccountSales cv_redirect_env cv_payload cv_page) \<noteq> Completed"
proof -
  have p: "oneAccountParam cv_redirect_env = Some ''click-1700000000000-k3j9x0a1b''"
    by (simp add: cv_redirect_env_def)
  have s: "\<not> stopLog cv_redirect_env" by (simp add: cv_redirect_env_def cv_env_def)
  have r: "resolve_click_id cv_redirect_env (string_of (property cv_payload ''pid'')) cv_page =
             (None, cv_page\<lparr>console :=
                [ConsoleLog (Received (Some ''click-1700000000000-k3j9x0a1b'') 29),
                 ConsoleError UrlParamInvalid]\<rparr>)"
    using p s redirect_param_invalid
    by (simp add: resolve_click_id_def Let_def logger_error_def cv_page_def)
  have run: "oneAccountSales cv_redirect_env cv_payload cv_page =
       (NoClickId,
        cv_page\<lparr>console :=
          [ConsoleLog (Received (Some ''click-1700000000000-k3j9x0a1b'') 29),
           ConsoleError UrlParamInvalid, ConsoleError ClickIdMissing]\<rparr>)"
    using s by (simp add: oneAccountSales_def validate_cv r logger_error_def) (simp add: cv_page_def)
  from p redirect_param_invalid cookie_redirect validate_cv run show ?thesis by simp
qed

section \<open>The primary request\<close>

text \<open>
  C1 says that a call whose preconditions hold attaches the primary tracking URL, the fixed
  base with the query, as the \<open>src\<close> of an image inside the container. The source does not:
  on the README's call the reporter runs to its end and the tracking URL is the one below,
  but the image it creates inside the container has no \<open>src\<close>; only the image appended to
  the body, with the partner's postback URL, has one.
\<close>

theorem C1_primary_image_without_src:
  "fst (oneAccountSales cv_env cv_payload cv_page) = Completed
   \<and> container (snd (oneAccountSales cv_env cv_payload cv_page))
       = Some [\<lparr>width = 1, height = 1, alt = [], display = ''none'', src = None\<rparr>]
   \<and> body_appended (snd (oneAccountSales cv_env cv_payload cv_page))
       = [\<lparr>width = 1, height = 1, alt = [], display = ''none'',
           src = Some (aspPostbackUrl ''click-1'' (Fin 2500) ''ORDER-12345'')\<rparr>]
   \<and> trackingUrl to_string (normalize_data cv_env cv_payload) ''click-1'' (Fin 2500)
       = \<lparr>base = ''https://px.oneaccount.net/oneaccountfly/sales'',
          params = [(''pid'', Str ''s00000000000001''), (''oneAccount'', Str ''click-1''),
                    (''o'', Str ''ORDER-12345''), (''c'', Str ''JPY''), (''p'', Num (Fin 2500)),
                    (''i[0][sc]'', Str ''item-001''), (''i[0][p]'', Num (Fin 1000)),
                    (''i[0][q]'', Num (Fin 2)),
                    (''i[1][sc]'', Str ''item-002''), (''i[1][p]'', Num (Fin 500)),
                    (''i[1][q]'', Num (Fin 1))]\<rparr>"
proof -
  have d0: "decimal 0 = ''0''" and d1: "decimal (Suc 0) = ''1''"
    by (simp_all add: decimal.simps char_of_eq_iff)
  have t: "trackingUrl to_string (normalize_data cv_env cv_payload) ''click-1'' (Fin 2500)
       = \<lparr>base = ''https://px.oneaccount.net/oneaccountfly/sales'',
          params = [(''pid'', Str ''s00000000000001''), (''oneAccount'', Str ''click-1''),
                    (''o'', Str ''ORDER-12345''), (''c'', Str ''JPY''), (''p'', Num (Fin 2500)),
                    (''i[0][sc]'', Str ''item-001''), (''i[0][p]'', Num (Fin 1000)),
                    (''i[0][q]'', Num (Fin 2)),
                    (''i[1][sc]'', Str ''item-002''), (''i[1][p]'', Num (Fin 500)),
                    (''i[1][q]'', Num (Fin 1))]\<rparr>"
    by (simp add: data_cv trackingUrl_def query_def ONEACCOUNT_SALES_SERVER_URL_def d0 d1)
  have c: "container (snd (oneAccountSales cv_env cv_payload cv_page))
       = Some [\<lparr>width = 1, height = 1, alt = [], display = ''none'', src = None\<rparr>]"
    by (simp add: run_cv cleanup_dom asp_postback_fields created_img_def)
  have b: "body_appended (snd (oneAccountSales cv_env cv_payload cv_page))
       = [\<lparr>width = 1, height = 1, alt = [], display = ''none'',
           src = Some (aspPostbackUrl ''click-1'' (Fin 2500) ''ORDER-12345'')\<rparr>]"
    by (simp add: run_cv cleanup_dom asp_postback_fields amount_cv)
       (simp add: data_cv created_img_def cv_page_def)
  from t c b show ?thesis by (simp add: run_cv)
qed

section \<open>Failed validation\<close>

text \<open>
  C9 says that a call on which validation fails returns without an exception and without
  an effect on the cookies or the page. The source does not always return: with a \<open>pid\<close>
  that is not 15 characters long and \<open>null\<close> as an item, reading \<open>item.price\<close> throws a
  \<open>TypeError\<close> to the caller.
\<close>

theorem C9_null_item_throws:
  "oneAccountSales cv_env payload_null_item cv_page = (Threw TypeError, cv_page)
   \<and> typeof (property payload_null_item ''pid'') = TString
   \<and> length (string_of (property payload_null_item ''pid'')) \<noteq> 15"
proof -
  have "validate payload_null_item = Inl TypeError"
    by (simp add: payload_null_item_def validate_def validate_item_def nullish_def Let_def)
  then show ?thesis
    by (simp add: oneAccountSales_def cv_page_def) (simp add: payload_null_item_def)
qed

section \<open>Items with NaN\<close>



end
